theory Spec2Isabelle
  imports Complex_Main
begin

section \<open>State transition diagrams: shallow embedding\<close>

text \<open>
  The development embeds three parts of the repository:
  \<^item> \<^verbatim>\<open>state_transition_diagrams/config.py\<close>: the dataclass \<^verbatim>\<open>DiagramConfig\<close>
    and its method \<^verbatim>\<open>to_js_config\<close>;
  \<^item> \<^verbatim>\<open>renderer.py\<close>: \<^verbatim>\<open>render_state_diagram\<close>, the construction of the
    Graphviz digraph (node loop and edge loop);
  \<^item> \<^verbatim>\<open>demo/app.py\<close>: \<^verbatim>\<open>_normalise_rows\<close> and \<^verbatim>\<open>_simulate_training\<close>.

  Numbers of the source are IEEE 754 binary64 values. A finite one is modelled by
  the real number it denotes; the entries of the matrix handed to the renderer and
  the thresholds they are compared with are such finite values, and comparing them
  is exact. Whatever the code computes from them, and every float it only stores or
  passes on, is a \<open>double\<close>: a finite value, an infinity or NaN, with the
  operations rounding to the nearest representable value (ties to even). The sign
  of zero is not modelled; no modelled result depends on it.
\<close>

subsection \<open>Errors\<close>

text \<open>
  The exceptions the embedded code can raise. \<open>ConfigurationError\<close> is the error the
  specification names for an invalid settings value; no path of the source raises it.
\<close>

datatype py_error =
  ImportError | IndexError | ZeroDivisionError | ValueError | TypeError | ConfigurationError

subsection \<open>Rounding to an integer\<close>

text \<open>\<^verbatim>\<open>rint\<close>: round to the nearest integer, ties to the even one.\<close>

definition rint :: "real \<Rightarrow> int" where
  "rint x =
     (let f = \<lfloor>x\<rfloor>; d = x - of_int f
      in if d < 1 / 2 then f
         else if 1 / 2 < d then f + 1
         else if even f then f else f + 1)"

subsection \<open>Binary64 arithmetic\<close>

text \<open>
  A binary64 value: finite (the real number it denotes), plus or minus infinity, or
  NaN.
\<close>

datatype double = Fin real | PInf | NInf | NaN

text \<open>\<open>2\<close> to an integer power.\<close>

definition pow2 :: "int \<Rightarrow> real" where
  "pow2 e = 2 powr of_int e"

text \<open>
  The exponent of the unit in the last place at \<open>x\<close>: a significand of 53 bits,
  the smallest normal exponent \<open>-1022\<close> (below it the spacing stays \<open>pow2 (-1074)\<close>).
\<close>

definition ulp_exp :: "real \<Rightarrow> int" where
  "ulp_exp x = max \<lfloor>log 2 \<bar>x\<bar>\<rfloor> (- 1022) - 52"

text \<open>Rounding to the nearest multiple of that unit, ties to the even multiple.\<close>

definition round_mant :: "real \<Rightarrow> real" where
  "round_mant x =
     (if x = 0 then 0 else of_int (rint (x / pow2 (ulp_exp x))) * pow2 (ulp_exp x))"

text \<open>
  Rounding a real result to binary64: a rounded magnitude of \<open>2 ^ 1024\<close> or more
  overflows to the infinity of the same sign.
\<close>

definition fl :: "real \<Rightarrow> double" where
  "fl x =
     (let r = round_mant x
      in if 2 ^ 1024 \<le> \<bar>r\<bar> then (if 0 < x then PInf else NInf) else Fin r)"

text \<open>
  Arithmetic: NaN propagates; the operations on infinities and the division by zero
  give an infinity or NaN as IEEE 754 says (the code of this repository never
  divides by zero); a finite result is rounded.
\<close>

definition dneg :: "double \<Rightarrow> double" where
  "dneg a = (case a of Fin x \<Rightarrow> Fin (- x) | PInf \<Rightarrow> NInf | NInf \<Rightarrow> PInf | NaN \<Rightarrow> NaN)"

definition dadd :: "double \<Rightarrow> double \<Rightarrow> double" where
  "dadd a b =
     (case (a, b) of
        (NaN, _) \<Rightarrow> NaN
      | (_, NaN) \<Rightarrow> NaN
      | (PInf, NInf) \<Rightarrow> NaN
      | (NInf, PInf) \<Rightarrow> NaN
      | (PInf, _) \<Rightarrow> PInf
      | (_, PInf) \<Rightarrow> PInf
      | (NInf, _) \<Rightarrow> NInf
      | (_, NInf) \<Rightarrow> NInf
      | (Fin x, Fin y) \<Rightarrow> fl (x + y))"

definition dsub :: "double \<Rightarrow> double \<Rightarrow> double" where
  "dsub a b = dadd a (dneg b)"

definition inf_of_sign :: "bool \<Rightarrow> double" where
  "inf_of_sign positive = (if positive then PInf else NInf)"

definition dmul :: "double \<Rightarrow> double \<Rightarrow> double" where
  "dmul a b =
     (case (a, b) of
        (NaN, _) \<Rightarrow> NaN
      | (_, NaN) \<Rightarrow> NaN
      | (Fin x, Fin y) \<Rightarrow> fl (x * y)
      | (Fin x, PInf) \<Rightarrow> if x = 0 then NaN else inf_of_sign (0 < x)
      | (Fin x, NInf) \<Rightarrow> if x = 0 then NaN else inf_of_sign (x < 0)
      | (PInf, Fin y) \<Rightarrow> if y = 0 then NaN else inf_of_sign (0 < y)
      | (NInf, Fin y) \<Rightarrow> if y = 0 then NaN else inf_of_sign (y < 0)
      | (PInf, PInf) \<Rightarrow> PInf
      | (NInf, NInf) \<Rightarrow> PInf
      | (PInf, NInf) \<Rightarrow> NInf
      | (NInf, PInf) \<Rightarrow> NInf)"

definition ddiv :: "double \<Rightarrow> double \<Rightarrow> double" where
  "ddiv a b =
     (case (a, b) of
        (NaN, _) \<Rightarrow> NaN
      | (_, NaN) \<Rightarrow> NaN
      | (Fin x, Fin y) \<Rightarrow>
          if y = 0 then (if x = 0 then NaN else inf_of_sign (0 < x)) else fl (x / y)
      | (Fin x, _) \<Rightarrow> Fin 0
      | (PInf, Fin y) \<Rightarrow> inf_of_sign (0 \<le> y)
      | (NInf, Fin y) \<Rightarrow> inf_of_sign (y < 0)
      | (_, _) \<Rightarrow> NaN)"

text \<open>Comparisons: every comparison with NaN is false.\<close>

definition dlt :: "double \<Rightarrow> double \<Rightarrow> bool" where
  "dlt a b =
     (case (a, b) of
        (NaN, _) \<Rightarrow> False
      | (_, NaN) \<Rightarrow> False
      | (Fin x, Fin y) \<Rightarrow> x < y
      | (NInf, NInf) \<Rightarrow> False
      | (NInf, _) \<Rightarrow> True
      | (PInf, _) \<Rightarrow> False
      | (Fin x, PInf) \<Rightarrow> True
      | (Fin x, NInf) \<Rightarrow> False)"

definition deq :: "double \<Rightarrow> double \<Rightarrow> bool" where
  "deq a b = (a \<noteq> NaN \<and> a = b)"

definition dle :: "double \<Rightarrow> double \<Rightarrow> bool" where
  "dle a b = (dlt a b \<or> deq a b)"

text \<open>\<^verbatim>\<open>np.rint\<close>: the nearest integer, ties to the even one.\<close>

definition drint :: "double \<Rightarrow> double" where
  "drint a = (case a of Fin x \<Rightarrow> Fin (of_int (rint x)) | _ \<Rightarrow> a)"

text \<open>
  \<^verbatim>\<open>round(x, decimals)\<close> for a NumPy scalar \<open>x\<close>, which is \<^verbatim>\<open>np.round\<close>: scale by
  \<open>10\<^bsup>decimals\<^esup>\<close>, round to the nearest integer, scale back.
\<close>

definition np_round :: "double \<Rightarrow> nat \<Rightarrow> double" where
  "np_round a decimals = ddiv (drint (dmul a (Fin (10 ^ decimals)))) (Fin (10 ^ decimals))"

text \<open>
  \<^verbatim>\<open>round(x, ndigits)\<close> for a Python float \<open>x\<close>: the double nearest to the decimal
  number with \<open>ndigits\<close> digits that is nearest to \<open>x\<close> (ties to even); an infinity
  and NaN are returned unchanged.
\<close>

definition py_round :: "double \<Rightarrow> nat \<Rightarrow> double" where
  "py_round a ndigits =
     (case a of Fin x \<Rightarrow> fl (of_int (rint (x * 10 ^ ndigits)) / 10 ^ ndigits) | _ \<Rightarrow> a)"

text \<open>A finite double denotes a representable number.\<close>

definition is_double :: "double \<Rightarrow> bool" where
  "is_double a = (case a of Fin x \<Rightarrow> fl x = Fin x | _ \<Rightarrow> True)"

text \<open>Summing an array from left to right, starting from \<open>0.0\<close>.\<close>

definition sum_left_to_right :: "double list \<Rightarrow> double" where
  "sum_left_to_right xs = fold (\<lambda>x acc. dadd acc x) xs (Fin 0)"

subsection \<open>Printing helpers\<close>

definition digit_char :: "nat \<Rightarrow> char" where
  "digit_char d = ''0123456789'' ! d"

text \<open>\<^verbatim>\<open>str(i)\<close> for a non-negative integer.\<close>

fun str_nat :: "nat \<Rightarrow> string" where
  "str_nat n = (if n < 10 then [digit_char n] else str_nat (n div 10) @ [digit_char (n mod 10)])"

declare str_nat.simps [simp del]

subsection \<open>config.py: DiagramConfig\<close>

text \<open>
  The values stored in \<^verbatim>\<open>interactive_state_colors\<close> (a \<^verbatim>\<open>list[dict]\<close>) and
  handed to \<^verbatim>\<open>json.dumps\<close> are arbitrary Python objects; \<open>pyval\<close> is the part of
  them that matters to the encoder. A dictionary keeps its items in insertion order.
\<close>

datatype pyval =
    PNone
  | PBool bool
  | PInt int
  | PFloat double
  | PStr string
  | PList "pyval list"
  | PTuple "pyval list"
  | PDict "(pyval \<times> pyval) list"
  | PSet "pyval list"

record DiagramConfig =
  state_colors :: "string list"
  observation_fill :: string
  observation_stroke :: string
  observation_text :: string
  start_fill :: string
  start_stroke :: string
  start_text :: string
  background_color :: string
  font_family :: string
  mono_font_family :: string
  title :: string
  prob_threshold :: real
  edge_color :: string
  node_shape :: string
  node_radius :: double
  layout_engine :: string
  output_format :: string
  particles_enabled :: bool
  decongestion_enabled :: bool
  animation_speed :: double
  interactive_state_colors :: "pyval list"

definition colour_entry :: "string \<Rightarrow> string \<Rightarrow> string \<Rightarrow> string \<Rightarrow> string \<Rightarrow> pyval" where
  "colour_entry b l d g1 g2 =
     PDict [(PStr ''base'', PStr b), (PStr ''light'', PStr l), (PStr ''dark'', PStr d),
            (PStr ''grad'', PList [PStr g1, PStr g2])]"

definition default_state_colors :: "string list" where
  "default_state_colors =
     [''#2E86AB'', ''#A23B72'', ''#F18F01'', ''#2CA58D'',
      ''#E84855'', ''#6B4226'', ''#7768AE'', ''#1B998B'']"

definition default_interactive_state_colors :: "pyval list" where
  "default_interactive_state_colors =
     [colour_entry ''#F59E0B'' ''#FDE68A'' ''#92400E'' ''#FBBF24'' ''#D97706'',
      colour_entry ''#3B82F6'' ''#93C5FD'' ''#1E3A8A'' ''#60A5FA'' ''#2563EB'',
      colour_entry ''#10B981'' ''#6EE7B7'' ''#064E3B'' ''#34D399'' ''#059669'',
      colour_entry ''#F43F5E'' ''#FDA4AF'' ''#881337'' ''#FB7185'' ''#E11D48'',
      colour_entry ''#8B5CF6'' ''#C4B5FD'' ''#4C1D95'' ''#A78BFA'' ''#7C3AED'',
      colour_entry ''#06B6D4'' ''#67E8F9'' ''#155E75'' ''#22D3EE'' ''#0891B2'',
      colour_entry ''#EC4899'' ''#F9A8D4'' ''#831843'' ''#F472B6'' ''#DB2777'',
      colour_entry ''#14B8A6'' ''#5EEAD4'' ''#134E4A'' ''#2DD4BF'' ''#0D9488'',
      colour_entry ''#F97316'' ''#FDBA74'' ''#7C2D12'' ''#FB923C'' ''#EA580C'',
      colour_entry ''#6366F1'' ''#A5B4FC'' ''#3730A3'' ''#818CF8'' ''#4F46E5'',
      colour_entry ''#84CC16'' ''#BEF264'' ''#3F6212'' ''#A3E635'' ''#65A30D'',
      colour_entry ''#E879F9'' ''#F0ABFC'' ''#701A75'' ''#D946EF'' ''#C026D3'']"

text \<open>
  The keyword arguments of the generated \<^verbatim>\<open>__init__\<close>: each one is optional. The
  floats that are only stored (\<^verbatim>\<open>node_radius\<close>, \<^verbatim>\<open>animation_speed\<close>) may be any
  \<open>double\<close>; \<^verbatim>\<open>prob_threshold\<close> is compared with the matrix entries and is finite.
\<close>

record DiagramConfig_kwargs =
  kw_state_colors :: "string list option"
  kw_observation_fill :: "string option"
  kw_observation_stroke :: "string option"
  kw_observation_text :: "string option"
  kw_start_fill :: "string option"
  kw_start_stroke :: "string option"
  kw_start_text :: "string option"
  kw_background_color :: "string option"
  kw_font_family :: "string option"
  kw_mono_font_family :: "string option"
  kw_title :: "string option"
  kw_prob_threshold :: "real option"
  kw_edge_color :: "string option"
  kw_node_shape :: "string option"
  kw_node_radius :: "double option"
  kw_layout_engine :: "string option"
  kw_output_format :: "string option"
  kw_particles_enabled :: "bool option"
  kw_decongestion_enabled :: "bool option"
  kw_animation_speed :: "double option"
  kw_interactive_state_colors :: "pyval list option"

definition no_kwargs :: DiagramConfig_kwargs where
  "no_kwargs = \<lparr>
     kw_state_colors = None, kw_observation_fill = None, kw_observation_stroke = None,
     kw_observation_text = None, kw_start_fill = None, kw_start_stroke = None,
     kw_start_text = None, kw_background_color = None, kw_font_family = None,
     kw_mono_font_family = None, kw_title = None, kw_prob_threshold = None,
     kw_edge_color = None, kw_node_shape = None, kw_node_radius = None,
     kw_layout_engine = None, kw_output_format = None, kw_particles_enabled = None,
     kw_decongestion_enabled = None, kw_animation_speed = None,
     kw_interactive_state_colors = None \<rparr>"

definition or_default :: "'a option \<Rightarrow> 'a \<Rightarrow> 'a" where
  "or_default v d = (case v of None \<Rightarrow> d | Some x \<Rightarrow> x)"

text \<open>
  \<^verbatim>\<open>DiagramConfig(**kwargs)\<close>. The class is a plain \<^verbatim>\<open>@dataclass\<close> with no
  \<^verbatim>\<open>__post_init__\<close>: the generated constructor stores every argument (or the
  field's default) and has no failing branch. The result type still has an error
  side, so that "construction fails" is a statement about this function.
\<close>

definition DiagramConfig_init :: "DiagramConfig_kwargs \<Rightarrow> py_error + DiagramConfig" where
  "DiagramConfig_init kw = Inr \<lparr>
     state_colors = or_default (kw_state_colors kw) default_state_colors,
     observation_fill = or_default (kw_observation_fill kw) ''#F1F5F9'',
     observation_stroke = or_default (kw_observation_stroke kw) ''#94A3B8'',
     observation_text = or_default (kw_observation_text kw) ''#334155'',
     start_fill = or_default (kw_start_fill kw) ''#F5F3FF'',
     start_stroke = or_default (kw_start_stroke kw) ''#8B5CF6'',
     start_text = or_default (kw_start_text kw) ''#5B21B6'',
     background_color = or_default (kw_background_color kw) ''#FAFAFA'',
     font_family = or_default (kw_font_family kw) ''Helvetica'',
     mono_font_family = or_default (kw_mono_font_family kw) ''JetBrains Mono, monospace'',
     title = or_default (kw_title kw) ''State Transition Diagram'',
     prob_threshold = or_default (kw_prob_threshold kw) 0.01,
     edge_color = or_default (kw_edge_color kw) ''#333333'',
     node_shape = or_default (kw_node_shape kw) ''circle'',
     node_radius = or_default (kw_node_radius kw) (Fin 40.0),
     layout_engine = or_default (kw_layout_engine kw) ''circo'',
     output_format = or_default (kw_output_format kw) ''svg'',
     particles_enabled = or_default (kw_particles_enabled kw) True,
     decongestion_enabled = or_default (kw_decongestion_enabled kw) False,
     animation_speed = or_default (kw_animation_speed kw) (Fin 1.0),
     interactive_state_colors =
       or_default (kw_interactive_state_colors kw) default_interactive_state_colors \<rparr>"

text \<open>\<^verbatim>\<open>DiagramConfig()\<close>, the configuration the renderer uses when it is given none.\<close>

definition default_config :: DiagramConfig where
  "default_config = projr (DiagramConfig_init no_kwargs)"

text \<open>\<^verbatim>\<open>if config is None: config = DiagramConfig()\<close>\<close>

definition config_or_default :: "DiagramConfig option \<Rightarrow> DiagramConfig" where
  "config_or_default config = (case config of None \<Rightarrow> default_config | Some c \<Rightarrow> c)"

subsection \<open>renderer.py: the digraph\<close>

text \<open>
  The \<^verbatim>\<open>graphviz.Digraph\<close> object is kept as the data the calls
  \<^verbatim>\<open>dot.attr\<close>, \<^verbatim>\<open>dot.node\<close> and \<^verbatim>\<open>dot.edge\<close> put into it, in call order.
  Node names \<^verbatim>\<open>str(i)\<close> are kept as the index \<open>i\<close>; the pen width
  \<^verbatim>\<open>str(round(..., 2))\<close> and the label \<^verbatim>\<open>f"{p:.3f}"\<close> are kept as the numbers
  that are printed (the pen width as the \<open>double\<close> that is computed).
\<close>

record gv_node =
  node_name :: nat
  node_label :: string
  node_shape_attr :: string
  node_style :: string
  fillcolor :: string
  node_fontcolor :: string
  node_fontsize :: string
  node_fontname :: string
  node_width :: string
  node_height :: string
  fixedsize :: string

record gv_edge =
  tail_name :: nat
  head_name :: nat
  edge_label :: real
  penwidth :: double
  edge_fontsize :: string
  edge_fontname :: string
  color :: string
  edge_fontcolor :: string

record digraph =
  graph_name :: string
  graph_comment :: string
  graph_format :: string
  graph_engine :: string
  rankdir :: string
  bgcolor :: string
  graph_label :: string
  labelloc :: string
  graph_fontsize :: string
  graph_fontname :: string
  pad :: string
  nodes :: "gv_node list"
  edges :: "gv_edge list"

text \<open>
  A matrix is the list of its rows. \<^verbatim>\<open>A.shape[0]\<close> is the number of rows;
  \<^verbatim>\<open>A[i, j]\<close> raises \<^verbatim>\<open>IndexError\<close> outside the array; \<^verbatim>\<open>A.max()\<close> raises
  \<^verbatim>\<open>ValueError\<close> on an array without elements.
\<close>

type_synonym matrix = "real list list"

definition mat_get :: "matrix \<Rightarrow> nat \<Rightarrow> nat \<Rightarrow> py_error + real" where
  "mat_get A i j =
     (if i < length A \<and> j < length (A ! i) then Inr (A ! i ! j) else Inl IndexError)"

definition mat_max :: "matrix \<Rightarrow> py_error + real" where
  "mat_max A = (case concat A of [] \<Rightarrow> Inl ValueError | x # xs \<Rightarrow> Inr (fold max xs x))"

text \<open>\<^verbatim>\<open>config.state_colors[i % len(config.state_colors)]\<close>\<close>

definition palette_color :: "DiagramConfig \<Rightarrow> nat \<Rightarrow> py_error + string" where
  "palette_color config i =
     (if length (state_colors config) = 0 then Inl ZeroDivisionError
      else Inr (state_colors config ! (i mod length (state_colors config))))"

text \<open>
  \<^verbatim>\<open>prob_threshold if prob_threshold is not None else config.prob_threshold\<close>,
  with the configuration defaulted as above.
\<close>

definition threshold_or_default :: "DiagramConfig option \<Rightarrow> real option \<Rightarrow> real" where
  "threshold_or_default config thr =
     (case thr of Some t \<Rightarrow> t | None \<Rightarrow> prob_threshold (config_or_default config))"

text \<open>\<^verbatim>\<open>x or d\<close> for an optional string: \<^verbatim>\<open>None\<close> and the empty string are falsy.\<close>

definition str_or :: "string option \<Rightarrow> string \<Rightarrow> string" where
  "str_or x d = (case x of None \<Rightarrow> d | Some s \<Rightarrow> if s = [] then d else s)"

definition default_labels :: "nat \<Rightarrow> string list" where
  "default_labels N = map (\<lambda>i. CHR ''S'' # str_nat i) [0..<N]"

text \<open>\<^verbatim>\<open>if state_labels is None: state_labels = [f"S{i}" for i in range(N)]\<close>\<close>

definition labels_or_default :: "string list option \<Rightarrow> nat \<Rightarrow> string list" where
  "labels_or_default state_labels N =
     (case state_labels of None \<Rightarrow> default_labels N | Some ls \<Rightarrow> ls)"

definition mk_node :: "DiagramConfig \<Rightarrow> nat \<Rightarrow> string \<Rightarrow> string \<Rightarrow> gv_node" where
  "mk_node config i label c = \<lparr>
     node_name = i, node_label = label, node_shape_attr = node_shape config,
     node_style = ''filled'', fillcolor = c, node_fontcolor = ''white'',
     node_fontsize = ''14'', node_fontname = font_family config @ '' Bold'',
     node_width = ''1.0'', node_height = ''1.0'', fixedsize = ''true'' \<rparr>"

text \<open>The node loop, \<^verbatim>\<open>for i, label in enumerate(state_labels)\<close>, from index \<open>i\<close> on.\<close>

fun add_nodes :: "DiagramConfig \<Rightarrow> nat \<Rightarrow> string list \<Rightarrow> py_error + gv_node list" where
  "add_nodes config i [] = Inr []"
| "add_nodes config i (label # labels) =
     (case palette_color config i of
        Inl e \<Rightarrow> Inl e
      | Inr c \<Rightarrow>
          (case add_nodes config (Suc i) labels of
             Inl e \<Rightarrow> Inl e
           | Inr ns \<Rightarrow> Inr (mk_node config i label c # ns)))"

text \<open>
  \<^verbatim>\<open>round(0.5 + 3.5 * (p / max_prob), 2)\<close>, each operation in binary64: \<open>p\<close> is
  an entry of the NumPy array, so the quotient, the product, the sum and the value
  that is rounded are NumPy scalars.
\<close>

definition edge_width :: "real \<Rightarrow> real \<Rightarrow> double" where
  "edge_width max_prob p =
     np_round (dadd (Fin 0.5) (dmul (Fin 3.5) (ddiv (Fin p) (Fin max_prob)))) 2"

definition mk_edge :: "DiagramConfig \<Rightarrow> real \<Rightarrow> nat \<Rightarrow> nat \<Rightarrow> real \<Rightarrow> string \<Rightarrow> gv_edge" where
  "mk_edge config max_prob i j p c = \<lparr>
     tail_name = i, head_name = j, edge_label = p, penwidth = edge_width max_prob p,
     edge_fontsize = ''10'', edge_fontname = font_family config,
     color = c, edge_fontcolor = c \<rparr>"

text \<open>
  The inner loop \<^verbatim>\<open>for j in range(N)\<close> of row \<open>i\<close>, over the remaining column
  indices. An edge below the threshold is skipped (\<^verbatim>\<open>continue\<close>); a self-loop takes
  the node's palette colour, any other edge \<^verbatim>\<open>config.edge_color\<close>.
\<close>

fun add_edges_row ::
  "DiagramConfig \<Rightarrow> real \<Rightarrow> real \<Rightarrow> matrix \<Rightarrow> nat \<Rightarrow> nat list \<Rightarrow> py_error + gv_edge list" where
  "add_edges_row config thr max_prob A i [] = Inr []"
| "add_edges_row config thr max_prob A i (j # js) =
     (case mat_get A i j of
        Inl e \<Rightarrow> Inl e
      | Inr p \<Rightarrow>
          if p < thr then add_edges_row config thr max_prob A i js
          else
            (case (if i \<noteq> j then Inr (edge_color config) else palette_color config i) of
               Inl e \<Rightarrow> Inl e
             | Inr c \<Rightarrow>
                 (case add_edges_row config thr max_prob A i js of
                    Inl e \<Rightarrow> Inl e
                  | Inr es \<Rightarrow> Inr (mk_edge config max_prob i j p c # es))))"

text \<open>The outer loop \<^verbatim>\<open>for i in range(N)\<close>, over the remaining row indices.\<close>

fun add_edges ::
  "DiagramConfig \<Rightarrow> real \<Rightarrow> real \<Rightarrow> matrix \<Rightarrow> nat \<Rightarrow> nat list \<Rightarrow> py_error + gv_edge list" where
  "add_edges config thr max_prob A N [] = Inr []"
| "add_edges config thr max_prob A N (i # is) =
     (case add_edges_row config thr max_prob A i [0..<N] of
        Inl e \<Rightarrow> Inl e
      | Inr row \<Rightarrow>
          (case add_edges config thr max_prob A N is of
             Inl e \<Rightarrow> Inl e
           | Inr rest \<Rightarrow> Inr (row @ rest)))"

text \<open>\<^verbatim>\<open>max_prob = A.max() if A.max() > 0 else 1.0\<close>\<close>

definition max_prob_of :: "matrix \<Rightarrow> py_error + real" where
  "max_prob_of A = (case mat_max A of Inl e \<Rightarrow> Inl e | Inr m \<Rightarrow> Inr (if m > 0 then m else 1.0))"

text \<open>
  \<^verbatim>\<open>render_state_diagram(A, state_labels=, config=, fmt=, title=, prob_threshold=)\<close>
  with \<^verbatim>\<open>save_path=None\<close> (writing the file is left to the Graphviz executable).
  The first argument says whether the \<^verbatim>\<open>graphviz\<close> package could be imported.
\<close>

definition render_state_diagram ::
  "bool \<Rightarrow> matrix \<Rightarrow> string list option \<Rightarrow> DiagramConfig option \<Rightarrow> string option \<Rightarrow>
   string option \<Rightarrow> real option \<Rightarrow> py_error + digraph" where
  "render_state_diagram graphviz A state_labels config fmt ttl thr =
     (if \<not> graphviz then Inl ImportError
      else
        let thr = threshold_or_default config thr;
            config = config_or_default config;
            fmt = str_or fmt (output_format config);
            ttl = str_or ttl (title config);
            N = length A;
            state_labels = labels_or_default state_labels N
        in case add_nodes config 0 state_labels of
             Inl e \<Rightarrow> Inl e
           | Inr ns \<Rightarrow>
               (case max_prob_of A of
                  Inl e \<Rightarrow> Inl e
                | Inr max_prob \<Rightarrow>
                    (case add_edges config thr max_prob A N [0..<N] of
                       Inl e \<Rightarrow> Inl e
                     | Inr es \<Rightarrow>
                         Inr \<lparr> graph_name = ''StateDiagram'', graph_comment = ttl,
                               graph_format = fmt, graph_engine = layout_engine config,
                               rankdir = ''LR'', bgcolor = background_color config,
                               graph_label = ttl, labelloc = ''t'', graph_fontsize = ''18'',
                               graph_fontname = font_family config, pad = ''0.5'',
                               nodes = ns, edges = es \<rparr>)))"

text \<open>
  What is read off the result: the end points of the edges in the order of their
  creation, their number (the tests count the \<^verbatim>\<open>->\<close> in the source of the graph),
  and their weights with the pen widths. A call that raised gives \<open>None\<close>.
\<close>

definition edge_ends :: "gv_edge \<Rightarrow> nat \<times> nat" where
  "edge_ends e = (tail_name e, head_name e)"

definition drawn_edges :: "py_error + digraph \<Rightarrow> (nat \<times> nat) list option" where
  "drawn_edges r = (case r of Inl e \<Rightarrow> None | Inr g \<Rightarrow> Some (map edge_ends (edges g)))"

definition num_edges :: "py_error + digraph \<Rightarrow> nat option" where
  "num_edges r = (case r of Inl e \<Rightarrow> None | Inr g \<Rightarrow> Some (length (edges g)))"


subsection \<open>Vocabulary of the statements about the renderer\<close>

text \<open>A transition matrix over \<open>N\<close> states has \<open>N\<close> rows of \<open>N\<close> entries.\<close>

definition square :: "matrix \<Rightarrow> bool" where
  "square A = list_all (\<lambda>r. length r = length A) A"

text \<open>The colour the edge loop gives the edge from \<open>i\<close> to \<open>j\<close>.\<close>

definition edge_colour :: "DiagramConfig \<Rightarrow> nat \<Rightarrow> nat \<Rightarrow> string" where
  "edge_colour config i j =
     (if i \<noteq> j then edge_color config
      else state_colors config ! (i mod length (state_colors config)))"

text \<open>The index pairs whose entry is not below the threshold, rows first.\<close>

definition selected :: "matrix \<Rightarrow> real \<Rightarrow> (nat \<times> nat) list" where
  "selected A thr =
     filter (\<lambda>(i, j). \<not> A ! i ! j < thr) (List.product [0..<length A] [0..<length A])"

text \<open>Source index ascending, then target index ascending.\<close>

definition index_order :: "nat \<times> nat \<Rightarrow> nat \<times> nat \<Rightarrow> bool" where
  "index_order a b = (fst a < fst b \<or> (fst a = fst b \<and> snd a < snd b))"

definition zeros :: "nat \<Rightarrow> matrix" where
  "zeros n = replicate n (replicate n 0)"

definition eye3 :: matrix where
  "eye3 = [[1, 0, 0], [0, 1, 0], [0, 0, 1]]"

subsection \<open>demo/app.py: row normalisation and the training simulator\<close>

text \<open>
  The arrays of the demo application hold arbitrary doubles. How NumPy adds up the
  entries of an array (\<^verbatim>\<open>sum\<close>: in which order, with which intermediate roundings)
  is a parameter \<open>np_sum\<close> of the model.
\<close>

type_synonym dvector = "double list"
type_synonym dmatrix = "double list list"

text \<open>
  \<^verbatim>\<open>sums = matrix.sum(axis=1, keepdims=True); sums[sums == 0] = 1.0\<close>:
  one divisor per row.
\<close>

definition row_divisors :: "(dvector \<Rightarrow> double) \<Rightarrow> dmatrix \<Rightarrow> dvector" where
  "row_divisors np_sum m =
     map (\<lambda>row. let s = np_sum row in if deq s (Fin 0) then Fin 1.0 else s) m"

text \<open>\<^verbatim>\<open>return matrix / sums\<close>: every entry of a row is divided by the row's divisor.\<close>

definition normalise_rows :: "(dvector \<Rightarrow> double) \<Rightarrow> dmatrix \<Rightarrow> dmatrix" where
  "normalise_rows np_sum m =
     map2 (\<lambda>row s. map (\<lambda>x. ddiv x s) row) m (row_divisors np_sum m)"

text \<open>
  What the simulator takes from NumPy is a parameter: a generator state \<open>'g\<close> with
  the draws made from it, each returning the value and the next state, the sum of
  an array and the exponential function.
\<close>

record 'g numpy_ops =
  default_rng :: "int option \<Rightarrow> 'g"
  dirichlet_rows :: "nat \<Rightarrow> nat \<Rightarrow> 'g \<Rightarrow> dmatrix \<times> 'g"
  dirichlet_vec :: "nat \<Rightarrow> 'g \<Rightarrow> dvector \<times> 'g"
  random :: "'g \<Rightarrow> double \<times> 'g"
  normal_mat :: "double \<Rightarrow> double \<Rightarrow> dmatrix \<Rightarrow> 'g \<Rightarrow> dmatrix \<times> 'g"
  normal_vec :: "double \<Rightarrow> double \<Rightarrow> dvector \<Rightarrow> 'g \<Rightarrow> dvector \<times> 'g"
  uniform :: "double \<Rightarrow> double \<Rightarrow> 'g \<Rightarrow> double \<times> 'g"
  array_sum :: "dvector \<Rightarrow> double"
  np_exp :: "double \<Rightarrow> double"

text \<open>
  \<^verbatim>\<open>_random_transition_matrix\<close>, \<^verbatim>\<open>_random_emission_matrix\<close>, \<^verbatim>\<open>_random_initial\<close>:
  \<^verbatim>\<open>rng.dirichlet(np.ones(m), size=n)\<close> and \<^verbatim>\<open>rng.dirichlet(np.ones(n))\<close>.
\<close>

definition random_transition_matrix :: "'g numpy_ops \<Rightarrow> nat \<Rightarrow> 'g \<Rightarrow> dmatrix \<times> 'g" where
  "random_transition_matrix ops n g = dirichlet_rows ops n n g"

definition random_emission_matrix :: "'g numpy_ops \<Rightarrow> nat \<Rightarrow> nat \<Rightarrow> 'g \<Rightarrow> dmatrix \<times> 'g" where
  "random_emission_matrix ops n m g = dirichlet_rows ops n m g"

definition random_initial :: "'g numpy_ops \<Rightarrow> nat \<Rightarrow> 'g \<Rightarrow> dvector \<times> 'g" where
  "random_initial ops n g = dirichlet_vec ops n g"

text \<open>
  Element-wise arithmetic of NumPy on vectors and matrices of equal shape.
  \<^verbatim>\<open>clip\<close> keeps a NaN entry.
\<close>

definition dclip :: "double option \<Rightarrow> double option \<Rightarrow> double \<Rightarrow> double" where
  "dclip lo hi x =
     (let y = (case lo of None \<Rightarrow> x | Some l \<Rightarrow> if dlt x l then l else x)
      in case hi of None \<Rightarrow> y | Some h \<Rightarrow> if dlt h y then h else y)"

definition vec_scale :: "double \<Rightarrow> dvector \<Rightarrow> dvector" where
  "vec_scale c v = map (\<lambda>x. dmul c x) v"

definition vec_add :: "dvector \<Rightarrow> dvector \<Rightarrow> dvector" where
  "vec_add u v = map2 dadd u v"

definition vec_clip :: "double option \<Rightarrow> double option \<Rightarrow> dvector \<Rightarrow> dvector" where
  "vec_clip lo hi v = map (dclip lo hi) v"

definition mat_scale :: "double \<Rightarrow> dmatrix \<Rightarrow> dmatrix" where
  "mat_scale c m = map (vec_scale c) m"

definition mat_add :: "dmatrix \<Rightarrow> dmatrix \<Rightarrow> dmatrix" where
  "mat_add a b = map2 vec_add a b"

definition mat_clip :: "double option \<Rightarrow> double option \<Rightarrow> dmatrix \<Rightarrow> dmatrix" where
  "mat_clip lo hi m = map (vec_clip lo hi) m"

record snapshot =
  snap_A :: dmatrix
  snap_B :: dmatrix
  snap_pi :: dvector
  iteration :: int
  log_likelihood :: double

record 'g sim_state =
  cur_A :: dmatrix
  cur_B :: dmatrix
  cur_pi :: dvector
  cur_ll :: double
  cur_rng :: 'g

text \<open>
  In \<open>normal_mat\<close> and \<open>normal_vec\<close> the third argument is the array whose shape
  the draw takes (\<^verbatim>\<open>rng.normal(0, sigma, A.shape)\<close>).

  One pass through the body of \<^verbatim>\<open>for i in range(1, n_iterations + 1)\<close>: the blend
  towards the targets with clipped noise, the normalisations, the log-likelihood
  increment, and the dictionary appended to \<^verbatim>\<open>iterations\<close>. The draws are made in
  the order of the source. A decimal literal is the double nearest to it, and the
  loop counter is converted to a double where it meets one (the loop runs for
  \<open>i \<ge> 1\<close> only, so \<^verbatim>\<open>0.005 / i\<close> does not raise).
\<close>

definition training_step ::
  "'g numpy_ops \<Rightarrow> dmatrix \<Rightarrow> dmatrix \<Rightarrow> dvector \<Rightarrow> int \<Rightarrow> 'g sim_state \<Rightarrow>
   'g sim_state \<times> snapshot" where
  "training_step ops A_target B_target pi_target i st =
     (let alpha = dsub (Fin 1.0) (np_exp ops (dmul (fl (- 0.12)) (fl (of_int i))));
          (nA, g1) = normal_mat ops (Fin 0) (ddiv (fl 0.005) (fl (of_int i))) (cur_A st) (cur_rng st);
          A = normalise_rows (array_sum ops)
                (mat_add (mat_add (mat_scale (dsub (Fin 1) alpha) (cur_A st))
                                  (mat_scale alpha A_target))
                         (mat_clip (Some (fl (- 0.05))) (Some (fl 0.05)) nA));
          (nB, g2) = normal_mat ops (Fin 0) (ddiv (fl 0.005) (fl (of_int i))) (cur_B st) g1;
          B = normalise_rows (array_sum ops)
                (mat_add (mat_add (mat_scale (dsub (Fin 1) alpha) (cur_B st))
                                  (mat_scale alpha B_target))
                         (mat_clip (Some (fl (- 0.05))) (Some (fl 0.05)) nB));
          (npi, g3) = normal_vec ops (Fin 0) (ddiv (fl 0.005) (fl (of_int i))) (cur_pi st) g2;
          pi_raw = vec_add (vec_add (vec_scale (dsub (Fin 1) alpha) (cur_pi st))
                                    (vec_scale alpha pi_target))
                           (vec_clip (Some (fl (- 0.05))) (Some (fl 0.05)) npi);
          pi_raw = vec_clip (Some (fl (1 / 10 ^ 10))) None pi_raw;
          pi = map (\<lambda>x. ddiv x (array_sum ops pi_raw)) pi_raw;
          (u, g4) = uniform ops (Fin 1.0) (Fin 15.0) g3;
          ll = dadd (cur_ll st) (dmul u (np_exp ops (dmul (fl (- 0.05)) (fl (of_int i)))))
      in (\<lparr> cur_A = A, cur_B = B, cur_pi = pi, cur_ll = ll, cur_rng = g4 \<rparr>,
          \<lparr> snap_A = A, snap_B = B, snap_pi = pi, iteration = i,
            log_likelihood = py_round ll 4 \<rparr>))"

text \<open>The loop over the remaining values of \<open>i\<close>; \<open>iterations\<close> is the list built so far.\<close>

fun training_loop ::
  "'g numpy_ops \<Rightarrow> dmatrix \<Rightarrow> dmatrix \<Rightarrow> dvector \<Rightarrow> int list \<Rightarrow> 'g sim_state \<Rightarrow>
   snapshot list \<Rightarrow> snapshot list" where
  "training_loop ops A_target B_target pi_target [] st iterations = iterations"
| "training_loop ops A_target B_target pi_target (i # is) st iterations =
     (case training_step ops A_target B_target pi_target i st of
        (st', snap) \<Rightarrow> training_loop ops A_target B_target pi_target is st' (iterations @ [snap]))"

text \<open>\<^verbatim>\<open>_simulate_training(n_states, n_obs, n_iterations, seed)\<close>\<close>

definition simulate_training ::
  "'g numpy_ops \<Rightarrow> nat \<Rightarrow> nat \<Rightarrow> int \<Rightarrow> int option \<Rightarrow> snapshot list" where
  "simulate_training ops n_states n_obs n_iterations seed =
     (let rng = default_rng ops seed;
          (A_target, rng) = random_transition_matrix ops n_states rng;
          (B_target, rng) = random_emission_matrix ops n_states n_obs rng;
          (pi_target, rng) = random_initial ops n_states rng;
          (A, rng) = random_transition_matrix ops n_states rng;
          (B, rng) = random_emission_matrix ops n_states n_obs rng;
          (pi, rng) = random_initial ops n_states rng;
          (r, rng) = random ops rng;
          ll = dsub (Fin (- 500.0)) (dmul r (Fin 200))
      in training_loop ops A_target B_target pi_target [1..n_iterations]
           \<lparr> cur_A = A, cur_B = B, cur_pi = pi, cur_ll = ll, cur_rng = rng \<rparr> [])"

subsection \<open>config.py: to_js_config\<close>












section \<open>Properties of the binary64 arithmetic\<close>

subsection \<open>Rounding to an integer\<close>

lemma rint_of_int [simp]: "rint (of_int k) = k"
  by (simp add: rint_def)

lemma rint_numeral [simp]: "rint (numeral n) = numeral n"
  using rint_of_int [of "numeral n"] by simp

lemma rint_zero [simp]: "rint 0 = 0"
  using rint_of_int [of 0] by simp

lemma rint_mono:
  assumes "x \<le> y"
  shows "rint x \<le> rint y"
proof -
  have f: "\<lfloor>x\<rfloor> \<le> \<lfloor>y\<rfloor>" using assms by (rule floor_mono)
  show ?thesis
  proof (cases "\<lfloor>x\<rfloor> = \<lfloor>y\<rfloor>")
    case True
    then have "x - of_int \<lfloor>x\<rfloor> \<le> y - of_int \<lfloor>y\<rfloor>" using assms by simp
    with True show ?thesis
      by (auto simp: rint_def Let_def)
  next
    case False
    with f have "\<lfloor>x\<rfloor> + 1 \<le> \<lfloor>y\<rfloor>" by simp
    moreover have "rint x \<le> \<lfloor>x\<rfloor> + 1" by (simp add: rint_def Let_def)
    moreover have "\<lfloor>y\<rfloor> \<le> rint y" by (simp add: rint_def Let_def)
    ultimately show ?thesis by linarith
  qed
qed

lemma rint_minus: "rint (- x) = - rint x"
proof (cases "x \<in> \<int>")
  case True
  then obtain k where "x = of_int k" by (auto elim: Ints_cases)
  then show ?thesis by (simp add: rint_def flip: of_int_minus)
next
  case False
  then have ne: "x \<noteq> of_int \<lfloor>x\<rfloor>" by (metis Ints_of_int)
  then have f: "\<lfloor>- x\<rfloor> = - \<lfloor>x\<rfloor> - 1"
    by (simp add: floor_minus ceiling_altdef)
  have d: "0 < x - of_int \<lfloor>x\<rfloor>" "x - of_int \<lfloor>x\<rfloor> < 1"
    using ne by linarith+
  show ?thesis
    unfolding rint_def Let_def f
    using d by (auto simp: algebra_simps)
qed


lemma pow2_pos [simp]: "0 < pow2 e"
  by (simp add: pow2_def)

lemma pow2_nonneg [simp]: "0 \<le> pow2 e"
  by (simp add: pow2_def)

lemma pow2_nonzero [simp]: "pow2 e \<noteq> 0"
  by (simp add: pow2_def)

lemma pow2_add: "pow2 (a + b) = pow2 a * pow2 b"
  by (simp add: pow2_def powr_add)

lemma pow2_diff: "pow2 (a - b) = pow2 a / pow2 b"
  by (simp add: pow2_def powr_diff)

lemma pow2_mono: "a \<le> b \<Longrightarrow> pow2 a \<le> pow2 b"
  by (simp add: pow2_def)

lemma pow2_nat: "pow2 (int n) = 2 ^ n"
  by (simp add: pow2_def powr_realpow)

lemma pow2_neg_nat: "pow2 (- int n) = 1 / 2 ^ n"
  by (simp add: pow2_def powr_minus powr_realpow divide_inverse)

lemma floor_log2_bounds:
  assumes "0 < x"
  shows "pow2 \<lfloor>log 2 x\<rfloor> \<le> x" "x < pow2 (\<lfloor>log 2 x\<rfloor> + 1)"
  using floor_log_eq_powr_iff [of x 2 "\<lfloor>log 2 x\<rfloor>"] assms
  by (simp_all add: pow2_def)

lemma ulp_exp_abs [simp]: "ulp_exp (- x) = ulp_exp x"
  by (simp add: ulp_exp_def)

lemma round_mant_minus: "round_mant (- x) = - round_mant x"
  by (simp add: round_mant_def rint_minus)

lemma round_mant_nonneg: "0 \<le> x \<Longrightarrow> 0 \<le> round_mant x"
proof -
  assume "0 \<le> x"
  then have "0 \<le> x / pow2 (ulp_exp x)"
    by (intro divide_nonneg_pos) simp_all
  then have "rint 0 \<le> rint (x / pow2 (ulp_exp x))" by (rule rint_mono)
  then have "0 \<le> rint (x / pow2 (ulp_exp x))" using rint_of_int [of 0] by simp
  then show ?thesis by (simp add: round_mant_def)
qed

lemma round_mant_upper:
  assumes "0 < x"
  shows "round_mant x \<le> pow2 (ulp_exp x + 53)"
proof -
  let ?u = "pow2 (ulp_exp x)"
  have "x < pow2 (\<lfloor>log 2 x\<rfloor> + 1)" using floor_log2_bounds(2) [OF assms] .
  also have "\<dots> \<le> pow2 (ulp_exp x + 53)"
    using assms by (intro pow2_mono) (simp add: ulp_exp_def)
  finally have "x / ?u \<le> pow2 (ulp_exp x + 53) / ?u"
    by (intro divide_right_mono) simp_all
  also have "\<dots> = of_int (2 ^ 53)"
    using pow2_nat [of 53] by (simp add: pow2_add)
  finally have "rint (x / ?u) \<le> rint (of_int (2 ^ 53))" by (rule rint_mono)
  then have "rint (x / ?u) \<le> 2 ^ 53" by (simp only: rint_of_int)
  then have "of_int (rint (x / ?u)) * ?u \<le> of_int (2 ^ 53) * ?u"
    by (intro mult_right_mono) (simp_all only: of_int_le_iff pow2_pos less_imp_le)
  also have "\<dots> = pow2 (ulp_exp x + 53)"
    using pow2_nat [of 53] by (simp add: pow2_add)
  finally show ?thesis using assms by (simp add: round_mant_def)
qed

lemma round_mant_lower:
  assumes "0 < x" "- 1022 \<le> \<lfloor>log 2 x\<rfloor>"
  shows "pow2 (ulp_exp x + 52) \<le> round_mant x"
proof -
  let ?u = "pow2 (ulp_exp x)"
  have e: "ulp_exp x + 52 = \<lfloor>log 2 x\<rfloor>"
    using assms by (simp add: ulp_exp_def)
  have "pow2 (ulp_exp x + 52) \<le> x"
    unfolding e using floor_log2_bounds(1) [OF assms(1)] .
  then have "pow2 (ulp_exp x + 52) / ?u \<le> x / ?u"
    by (intro divide_right_mono) simp_all
  moreover have "pow2 (ulp_exp x + 52) / ?u = of_int (2 ^ 52)"
    using pow2_nat [of 52] by (simp add: pow2_add)
  ultimately have "rint (of_int (2 ^ 52)) \<le> rint (x / ?u)"
    by (intro rint_mono) simp
  then have "2 ^ 52 \<le> rint (x / ?u)" by (simp only: rint_of_int)
  then have A: "of_int (2 ^ 52) * ?u \<le> of_int (rint (x / ?u)) * ?u"
    by (intro mult_right_mono) (simp_all only: of_int_le_iff pow2_pos less_imp_le)
  have B: "of_int (2 ^ 52) * ?u = pow2 (ulp_exp x + 52)"
    using pow2_nat [of 52] by (simp add: pow2_add)
  have "pow2 (ulp_exp x + 52) \<le> of_int (rint (x / ?u)) * ?u"
    using A unfolding B .
  then show ?thesis using assms(1) by (simp add: round_mant_def)
qed

lemma ulp_exp_mono:
  assumes "0 < x" "x \<le> y"
  shows "ulp_exp x \<le> ulp_exp y"
proof -
  have "log 2 x \<le> log 2 y" using assms by simp
  then have "\<lfloor>log 2 x\<rfloor> \<le> \<lfloor>log 2 y\<rfloor>" by (rule floor_mono)
  then show ?thesis using assms by (simp add: ulp_exp_def)
qed

lemma round_mant_mono_pos:
  assumes "0 < x" "x \<le> y"
  shows "round_mant x \<le> round_mant y"
proof (cases "ulp_exp x = ulp_exp y")
  case True
  have "x / pow2 (ulp_exp y) \<le> y / pow2 (ulp_exp y)"
    using assms by (intro divide_right_mono) simp_all
  then have "rint (x / pow2 (ulp_exp y)) \<le> rint (y / pow2 (ulp_exp y))" by (rule rint_mono)
  then have "of_int (rint (x / pow2 (ulp_exp y))) * pow2 (ulp_exp y) \<le>
             of_int (rint (y / pow2 (ulp_exp y))) * pow2 (ulp_exp y)"
    by (intro mult_right_mono) (simp_all only: of_int_le_iff pow2_pos less_imp_le)
  then show ?thesis using assms True by (simp add: round_mant_def)
next
  case False
  then have lt: "ulp_exp x + 1 \<le> ulp_exp y"
    using ulp_exp_mono [OF assms] by simp
  have y: "0 < y" using assms by simp
  define ex where "ex = \<lfloor>log 2 x\<rfloor>"
  define ey where "ey = \<lfloor>log 2 y\<rfloor>"
  have ux: "ulp_exp x = max ex (- 1022) - 52"
    using assms(1) by (simp only: ulp_exp_def ex_def abs_of_pos)
  have uy: "ulp_exp y = max ey (- 1022) - 52"
    using y by (simp only: ulp_exp_def ey_def abs_of_pos)
  have "- 1022 \<le> ey" using lt unfolding ux uy by linarith
  then have "- 1022 \<le> \<lfloor>log 2 y\<rfloor>" by (simp only: ey_def)
  then have "pow2 (ulp_exp y + 52) \<le> round_mant y"
    using round_mant_lower [OF y] by simp
  moreover have "round_mant x \<le> pow2 (ulp_exp x + 53)"
    using round_mant_upper [OF assms(1)] .
  moreover have "pow2 (ulp_exp x + 53) \<le> pow2 (ulp_exp y + 52)"
    using lt by (intro pow2_mono) simp
  ultimately show ?thesis by linarith
qed

lemma round_mant_mono:
  assumes "x \<le> y"
  shows "round_mant x \<le> round_mant y"
proof -
  consider "0 < x" | "x \<le> 0" "0 \<le> y" | "y < 0" by linarith
  then show ?thesis
  proof cases
    case 1
    then show ?thesis using assms by (rule round_mant_mono_pos)
  next
    case 2
    have "round_mant x \<le> 0"
      using round_mant_nonneg [of "- x"] 2(1) by (simp add: round_mant_minus)
    moreover have "0 \<le> round_mant y" using 2(2) by (rule round_mant_nonneg)
    ultimately show ?thesis by simp
  next
    case 3
    then have "0 < - y" "- y \<le> - x" using assms by simp_all
    then have "round_mant (- y) \<le> round_mant (- x)" by (rule round_mant_mono_pos)
    then show ?thesis by (simp add: round_mant_minus)
  qed
qed


subsection \<open>Rounding is monotone\<close>

lemma fl_not_NaN [simp]: "fl x \<noteq> NaN"
  by (simp add: fl_def Let_def)

lemma round_mant_sign: "0 < x \<Longrightarrow> 0 \<le> round_mant x" "x \<le> 0 \<Longrightarrow> round_mant x \<le> 0"
  using round_mant_nonneg [of x] round_mant_nonneg [of "- x"]
  by (simp_all add: round_mant_minus)

lemma fl_mono:
  assumes "x \<le> y"
  shows "dle (fl x) (fl y)"
proof -
  have m: "round_mant x \<le> round_mant y" using assms by (rule round_mant_mono)
  have sx: "0 < x \<Longrightarrow> 0 \<le> round_mant x" "x \<le> 0 \<Longrightarrow> round_mant x \<le> 0"
    using round_mant_sign [of x] by blast+
  have sy: "0 < y \<Longrightarrow> 0 \<le> round_mant y" "y \<le> 0 \<Longrightarrow> round_mant y \<le> 0"
    using round_mant_sign [of y] by blast+
  show ?thesis
    using m sx sy assms
    by (auto simp: fl_def Let_def dle_def dlt_def deq_def abs_if not_less split: if_splits)
qed


lemma dle_simps [simp]:
  "dle (Fin x) (Fin y) = (x \<le> y)"
  "dle a PInf = (a \<noteq> NaN)"
  "dle NInf a = (a \<noteq> NaN)"
  "dle NaN a = False"
  "dle a NaN = False"
  "dle PInf (Fin y) = False"
  "dle (Fin x) NInf = False"
  "dle PInf NInf = False"
  by (auto simp: dle_def dlt_def deq_def split: double.splits)

lemma dle_fl_Fin: "dle (fl x) (fl y) \<Longrightarrow> fl y = NInf \<Longrightarrow> fl x = NInf"
  by (cases "fl x") simp_all

lemma dmul_left_mono:
  assumes "0 < c" "dle a b"
  shows "dle (dmul (Fin c) a) (dmul (Fin c) b)"
  using assms
  by (cases a; cases b) (simp_all add: dmul_def inf_of_sign_def fl_mono)


lemma dadd_left_mono:
  assumes "dle a b"
  shows "dle (dadd (Fin c) a) (dadd (Fin c) b)"
  using assms
  by (cases a; cases b) (simp_all add: dadd_def fl_mono)

lemma ddiv_right_mono:
  assumes "0 < c" "dle a b"
  shows "dle (ddiv a (Fin c)) (ddiv b (Fin c))"
  using assms
  by (cases a; cases b) (simp_all add: ddiv_def inf_of_sign_def fl_mono divide_right_mono)



lemma py_round_mono:
  assumes "dle a b"
  shows "dle (py_round a n) (py_round b n)"
  using assms
  by (cases a; cases b)
     (simp_all add: py_round_def fl_mono rint_mono divide_right_mono mult_right_mono)

subsection \<open>Numbers that are not rounded\<close>

lemma pow2_less_iff: "pow2 a < pow2 b \<longleftrightarrow> a < b"
  by (simp add: pow2_def)

lemma round_mant_exact:
  assumes "x = of_int k * pow2 e" "\<bar>k\<bar> < 2 ^ 53" "- 1074 \<le> e"
  shows "round_mant x = x"
proof (cases "k = 0")
  case True
  then show ?thesis using assms(1) by (simp add: round_mant_def)
next
  case False
  then have x0: "x \<noteq> 0" using assms(1) by simp
  have ax: "\<bar>x\<bar> = of_int \<bar>k\<bar> * pow2 e"
    using assms(1) by (simp add: abs_mult)
  have pos: "0 < \<bar>x\<bar>" using x0 by simp
  have "of_int \<bar>k\<bar> < (2 ^ 53 :: real)"
    using assms(2) by (metis of_int_less_iff of_int_numeral of_int_power)
  then have "\<bar>x\<bar> < 2 ^ 53 * pow2 e"
    unfolding ax by (intro mult_strict_right_mono) simp_all
  also have "\<dots> = pow2 (e + 53)"
    using pow2_nat [of 53] by (simp add: pow2_add)
  finally have "pow2 \<lfloor>log 2 \<bar>x\<bar>\<rfloor> < pow2 (e + 53)"
    using floor_log2_bounds(1) [OF pos] by linarith
  then have "\<lfloor>log 2 \<bar>x\<bar>\<rfloor> < e + 53" by (simp only: pow2_less_iff)
  then have u: "ulp_exp x \<le> e"
    using assms(3) by (simp add: ulp_exp_def)
  define n where "n = nat (e - ulp_exp x)"
  have e: "e = ulp_exp x + int n" using u by (simp add: n_def)
  have "pow2 e = pow2 (int n) * pow2 (ulp_exp x)"
    by (subst e) (simp add: pow2_add)
  then have "x = of_int k * pow2 (int n) * pow2 (ulp_exp x)"
    using assms(1) by simp
  then have "x / pow2 (ulp_exp x) = of_int k * pow2 (int n)"
    by (metis nonzero_mult_div_cancel_right pow2_nonzero)
  also have "\<dots> = of_int (k * 2 ^ n)"
    by (simp add: pow2_nat)
  finally have q: "x / pow2 (ulp_exp x) = of_int (k * 2 ^ n)" .
  have "round_mant x = of_int (k * 2 ^ n) * pow2 (ulp_exp x)"
    using x0 by (simp only: round_mant_def q rint_of_int if_False)
  also have "\<dots> = x / pow2 (ulp_exp x) * pow2 (ulp_exp x)"
    by (simp only: q)
  also have "\<dots> = x" by simp
  finally show ?thesis .
qed

lemma fl_exact:
  assumes "x = of_int k * pow2 e" "\<bar>k\<bar> < 2 ^ 53" "- 1074 \<le> e" "\<bar>x\<bar> < 2 ^ 1024"
  shows "fl x = Fin x"
  using round_mant_exact [OF assms(1-3)] assms(4) by (simp add: fl_def)

lemma fl_int:
  assumes "\<bar>k\<bar> < 2 ^ 53"
  shows "fl (of_int k) = Fin (of_int k)"
proof (rule fl_exact [of _ k 0])
  show "of_int k = of_int k * pow2 0" by (simp add: pow2_def)
  show "\<bar>k\<bar> < 2 ^ 53" by (rule assms)
  show "- 1074 \<le> (0 :: int)" by simp
  have "\<bar>of_int k :: real\<bar> = of_int \<bar>k\<bar>" by simp
  also have "\<dots> < of_int (2 ^ 53)" using assms by (simp only: of_int_less_iff)
  also have "\<dots> < 2 ^ 1024" by simp
  finally show "\<bar>of_int k :: real\<bar> < 2 ^ 1024" .
qed

lemma fl_dyadic:
  assumes "\<bar>k\<bar> < 2 ^ 53" "n \<le> 1074"
  shows "fl (of_int k / 2 ^ n) = Fin (of_int k / 2 ^ n)"
proof (rule fl_exact [of _ k "- int n"])
  show "of_int k / 2 ^ n = of_int k * pow2 (- int n)" by (simp add: pow2_neg_nat)
  show "\<bar>k\<bar> < 2 ^ 53" by (rule assms)
  show "- 1074 \<le> - int n" using assms(2) by simp
  have "\<bar>of_int k :: real\<bar> / 2 ^ n \<le> \<bar>of_int k\<bar> / 1"
    by (intro divide_left_mono) simp_all
  then have "\<bar>of_int k / 2 ^ n :: real\<bar> \<le> \<bar>of_int k\<bar>"
    by simp
  also have "\<dots> = of_int \<bar>k\<bar>" by simp
  also have "\<dots> < of_int (2 ^ 53)" using assms(1) by (simp only: of_int_less_iff)
  also have "\<dots> < 2 ^ 1024" by simp
  finally show "\<bar>of_int k / 2 ^ n :: real\<bar> < 2 ^ 1024" .
qed

lemma fl_zero [simp]: "fl 0 = Fin 0"
  using fl_int [of 0] by simp

lemma fl_half: "fl (1 / 2) = Fin (1 / 2)"
  using fl_dyadic [of 1 1] by simp

lemma fl_fifty: "fl 50 = Fin 50"
  using fl_int [of 50] by simp

subsection \<open>Rounding at a known exponent\<close>

lemma round_mant_at:
  assumes "pow2 e \<le> \<bar>x\<bar>" "\<bar>x\<bar> < pow2 (e + 1)" "- 1022 \<le> e"
  shows "round_mant x = of_int (rint (x / pow2 (e - 52))) * pow2 (e - 52)"
proof -
  have pos: "0 < \<bar>x\<bar>" using assms(1) pow2_pos [of e] by linarith
  have "\<lfloor>log 2 \<bar>x\<bar>\<rfloor> = e"
    using floor_log_eq_powr_iff [of "\<bar>x\<bar>" 2 e] pos assms(1,2) by (simp add: pow2_def)
  then have "ulp_exp x = e - 52" using assms(3) by (simp add: ulp_exp_def)
  moreover have "x \<noteq> 0" using pos by simp
  ultimately show ?thesis by (simp add: round_mant_def)
qed

section \<open>Properties of the renderer\<close>

subsection \<open>The loops in closed form\<close>

lemma add_edges_row_ok:
  assumes "i < length A" "\<forall>j\<in>set js. j < length (A ! i)" "state_colors config \<noteq> []"
  shows "add_edges_row config thr mp A i js =
         Inr (map (\<lambda>j. mk_edge config mp i j (A ! i ! j) (edge_colour config i j))
                  (filter (\<lambda>j. \<not> A ! i ! j < thr) js))"
  using assms
  by (induction js) (auto simp: mat_get_def palette_color_def edge_colour_def)

lemma add_edges_ok:
  assumes "\<forall>i\<in>set is. i < length A \<and> N \<le> length (A ! i)" "state_colors config \<noteq> []"
  shows "add_edges config thr mp A N is =
         Inr (concat (map (\<lambda>i. map (\<lambda>j. mk_edge config mp i j (A ! i ! j) (edge_colour config i j))
                  (filter (\<lambda>j. \<not> A ! i ! j < thr) [0..<N])) is))"
  using assms
  by (induction "is") (auto simp: add_edges_row_ok)

lemma concat_product:
  "concat (map (\<lambda>i. map (f i) (filter (P i) ys)) xs) =
   map (\<lambda>(i, j). f i j) (filter (\<lambda>(i, j). P i j) (List.product xs ys))"
  by (induction xs) (auto simp: filter_map comp_def)

lemma add_edges_selected:
  assumes "square A" "state_colors config \<noteq> []"
  shows "add_edges config thr mp A (length A) [0..<length A] =
         Inr (map (\<lambda>(i, j). mk_edge config mp i j (A ! i ! j) (edge_colour config i j))
                  (selected A thr))"
proof -
  have "\<forall>i\<in>set [0..<length A]. i < length A \<and> length A \<le> length (A ! i)"
    using assms(1) by (auto simp: square_def list_all_length)
  then show ?thesis
    using assms(2) by (simp add: add_edges_ok concat_product selected_def)
qed

lemma add_nodes_ok:
  assumes "state_colors config \<noteq> []"
  shows "add_nodes config i labels =
         Inr (map (\<lambda>(k, l). mk_node config k l (state_colors config ! (k mod length (state_colors config))))
                  (zip [i..<i + length labels] labels))"
  using assms
proof (induction labels arbitrary: i)
  case Nil
  then show ?case by simp
next
  case (Cons l ls)
  have "[i..<i + length (l # ls)] = i # [Suc i..<Suc i + length ls]"
    by (simp add: upt_rec)
  with Cons show ?case by (simp add: palette_color_def)
qed

lemma max_prob_of_ok:
  assumes "square A" "A \<noteq> []"
  shows "\<exists>m. max_prob_of A = Inr m \<and> 0 < m"
proof -
  obtain r rs where A: "A = r # rs" using assms(2) by (cases A) auto
  with assms(1) have "r \<noteq> []" by (auto simp: square_def)
  then have "concat A \<noteq> []" using A by simp
  then show ?thesis
    by (auto simp: max_prob_of_def mat_max_def split: list.splits)
qed

lemma render_ok:
  assumes "square A" "A \<noteq> []" "state_colors (config_or_default config) \<noteq> []"
  shows "\<exists>g m. render_state_diagram True A labels config fmt ttl thr = Inr g \<and>
           max_prob_of A = Inr m \<and>
           edges g = map (\<lambda>(i, j). mk_edge (config_or_default config) m i j (A ! i ! j)
                                      (edge_colour (config_or_default config) i j))
                         (selected A (threshold_or_default config thr)) \<and>
           nodes g = map (\<lambda>(k, l). mk_node (config_or_default config) k l
                           (state_colors (config_or_default config) !
                              (k mod length (state_colors (config_or_default config)))))
                         (zip [0..<length (labels_or_default labels (length A))]
                              (labels_or_default labels (length A)))"
proof -
  obtain m where m: "max_prob_of A = Inr m" using max_prob_of_ok [OF assms(1,2)] by blast
  show ?thesis
    using assms m
    by (simp add: render_state_diagram_def Let_def add_nodes_ok add_edges_selected threshold_or_default_def
        del: upt.simps)
qed

lemma default_palette: "state_colors default_config \<noteq> []"
  by (simp add: default_config_def DiagramConfig_init_def or_default_def no_kwargs_def
      default_state_colors_def)

lemma ends_mk_edge:
  "map (edge_ends \<circ> (\<lambda>(i, j). mk_edge c m i j (f i j) (h i j))) xs = xs"
  by (induction xs) (auto simp: edge_ends_def mk_edge_def)

lemma drawn_edges_render:
  assumes "square A" "A \<noteq> []" "state_colors (config_or_default config) \<noteq> []"
  shows "drawn_edges (render_state_diagram True A labels config fmt ttl thr) =
         Some (selected A (threshold_or_default config thr))"
proof -
  obtain g m where "render_state_diagram True A labels config fmt ttl thr = Inr g"
    and "edges g = map (\<lambda>(i, j). mk_edge (config_or_default config) m i j (A ! i ! j)
                                      (edge_colour (config_or_default config) i j))
                         (selected A (threshold_or_default config thr))"
    using render_ok [OF assms] by blast
  then show ?thesis
    by (simp add: drawn_edges_def ends_mk_edge)
qed

lemma num_edges_drawn: "num_edges r = map_option length (drawn_edges r)"
  by (simp add: num_edges_def drawn_edges_def split: sum.splits)

lemma selected_iff:
  "(i, j) \<in> set (selected A t) \<longleftrightarrow> i < length A \<and> j < length A \<and> t \<le> A ! i ! j"
  by (auto simp: selected_def)


lemma square2: "square [[a, b], [c, d]]"
  by (simp add: square_def)

lemma default_cfg: "config_or_default None = default_config"
  by (simp add: config_or_default_def)

subsection \<open>Edge selection\<close>



lemma square_eye3: "square eye3"
  by (simp add: square_def eye3_def)

lemma eye3_nonempty: "eye3 \<noteq> []"
  by (simp add: eye3_def)

lemma selected_eye3: "0 < t \<Longrightarrow> t \<le> 1 \<Longrightarrow> selected eye3 t = [(0, 0), (1, 1), (2, 2)]"
  by (simp add: selected_def eye3_def)

lemma selected_eye3_zero: "selected eye3 0 = List.product [0, 1, 2] [0, 1, 2]"
  by (simp add: selected_def eye3_def)

text \<open>
  Claim C2, as stated, fails at threshold \<open>0\<close>: an entry \<open>0\<close> is not below the
  threshold \<open>0\<close>, so all nine edges of the 3x3 identity matrix are drawn.
\<close>

theorem identity_threshold_zero_draws_nine_edges:
  "num_edges (render_state_diagram True eye3 None None None None (Some 0)) = Some 9"
  by (simp add: num_edges_drawn drawn_edges_render square_eye3 eye3_nonempty default_palette
      default_cfg threshold_or_default_def selected_eye3_zero)

text \<open>
  Claim C2, amended. For the 3x3 identity matrix and every threshold \<open>t\<close> with
  \<open>0 < t \<le> 1\<close>, \<^verbatim>\<open>render_state_diagram\<close> draws exactly the three self-loops, in
  index order, whatever the value of \<^verbatim>\<open>decongestion_enabled\<close> (the renderer does not
  read that field) and also with the default configuration.
\<close>

theorem identity_draws_three_self_loops:
  assumes "0 < t" "t \<le> 1" "state_colors config \<noteq> []"
  shows "drawn_edges (render_state_diagram True eye3 labels
                        (Some (config\<lparr>decongestion_enabled := d\<rparr>)) fmt ttl (Some t)) =
           Some [(0, 0), (1, 1), (2, 2)] \<and>
         drawn_edges (render_state_diagram True eye3 labels None fmt ttl (Some t)) =
           Some [(0, 0), (1, 1), (2, 2)]"
proof -
  have "eye3 \<noteq> []" by (simp add: eye3_def)
  moreover have "state_colors (config_or_default (Some (config\<lparr>decongestion_enabled := d\<rparr>))) \<noteq> []"
    using assms(3) by (simp add: config_or_default_def)
  moreover have "state_colors (config_or_default None) \<noteq> []"
    by (simp add: default_cfg default_palette)
  ultimately show ?thesis
    using assms(1,2)
    by (simp add: drawn_edges_render square_eye3 threshold_or_default_def selected_eye3)
qed

theorem identity_draws_three_self_loops_witness:
  "(0 :: real) < 0.01 \<and> (0.01 :: real) \<le> 1 \<and> state_colors default_config \<noteq> [] \<and>
   drawn_edges (render_state_diagram True eye3 None
                  (Some (default_config\<lparr>decongestion_enabled := True\<rparr>)) None None (Some 0.01)) =
     Some [(0, 0), (1, 1), (2, 2)] \<and>
   drawn_edges (render_state_diagram True eye3 None None None None (Some 0.01)) =
     Some [(0, 0), (1, 1), (2, 2)]"
proof -
  have h: "(0 :: real) < 0.01" "(0.01 :: real) \<le> 1" "state_colors default_config \<noteq> []"
    by (simp_all add: default_palette)
  show ?thesis
    using identity_draws_three_self_loops [OF h, of None True None None] h by simp
qed

subsection \<open>Order of the edge sequence\<close>

lemma sorted_product:
  "sorted_wrt (<) xs \<Longrightarrow> sorted_wrt (<) ys \<Longrightarrow> sorted_wrt index_order (List.product xs ys)"
proof (induction xs)
  case Nil
  then show ?case by simp
next
  case (Cons x xs)
  have "sorted_wrt index_order (map (Pair x) ys)"
    using Cons.prems(2) by (simp add: sorted_wrt_map index_order_def)
  moreover have "sorted_wrt index_order (List.product xs ys)"
    using Cons by simp
  moreover have "\<forall>a\<in>set (map (Pair x) ys). \<forall>b\<in>set (List.product xs ys). index_order a b"
    using Cons.prems(1) by (auto simp: index_order_def)
  ultimately show ?case by (simp add: sorted_wrt_append)
qed

lemma sorted_selected: "sorted_wrt index_order (selected A t)"
  unfolding selected_def
  by (rule sorted_wrt_filter) (simp add: sorted_product)

text \<open>
  Claim C7. The sequence of edges depends on the matrix and the threshold only: two calls
  on the same matrix and threshold give the same edge sequence, whatever labels,
  configuration, format and title they are given, and that sequence is in index order
  (source index ascending, then target index ascending).
\<close>

theorem edge_sequence_deterministic_and_ordered:
  assumes "square A" "A \<noteq> []" "state_colors (config_or_default config1) \<noteq> []"
    "state_colors (config_or_default config2) \<noteq> []"
  shows "drawn_edges (render_state_diagram True A labels1 config1 fmt1 ttl1 (Some t)) =
         drawn_edges (render_state_diagram True A labels2 config2 fmt2 ttl2 (Some t)) \<and>
         (\<exists>es. drawn_edges (render_state_diagram True A labels1 config1 fmt1 ttl1 (Some t)) = Some es \<and>
               es = selected A t \<and> sorted_wrt index_order es)"
  using assms
  by (simp add: drawn_edges_render threshold_or_default_def sorted_selected)

theorem edge_sequence_deterministic_and_ordered_witness:
  "square [[0.7, 0.3], [0.4, 0.6]] \<and> [[0.7, 0.3], [0.4, 0.6 :: real]] \<noteq> [] \<and>
   state_colors (config_or_default None) \<noteq> [] \<and>
   state_colors (config_or_default (Some (default_config\<lparr>state_colors := [''#AA0000'']\<rparr>))) \<noteq> [] \<and>
   drawn_edges (render_state_diagram True [[0.7, 0.3], [0.4, 0.6]] None None None None (Some 0.35)) =
   drawn_edges (render_state_diagram True [[0.7, 0.3], [0.4, 0.6]] (Some [''Rainy'', ''Sunny''])
                  (Some (default_config\<lparr>state_colors := [''#AA0000'']\<rparr>)) (Some ''png'')
                  (Some ''Weather'') (Some 0.35)) \<and>
   drawn_edges (render_state_diagram True [[0.7, 0.3], [0.4, 0.6]] None None None None (Some 0.35)) =
     Some [(0, 0), (1, 0), (1, 1)] \<and>
   sorted_wrt index_order [(0, 0), (1, 0), (1, 1)]"
proof -
  have h: "square [[0.7, 0.3], [0.4, 0.6]]" "[[0.7, 0.3], [0.4, 0.6 :: real]] \<noteq> []"
    "state_colors (config_or_default None) \<noteq> []"
    "state_colors (config_or_default (Some (default_config\<lparr>state_colors := [''#AA0000'']\<rparr>))) \<noteq> []"
    by (simp_all add: square2 default_palette default_cfg config_or_default_def)
  have s: "selected [[0.7, 0.3], [0.4, 0.6]] 0.35 = [(0, 0), (1, 0), (1, 1)]"
    by (simp add: selected_def)
  have o: "sorted_wrt index_order [(0, 0), (1, 0), (1, 1)]"
    by (simp add: index_order_def)
  from edge_sequence_deterministic_and_ordered [OF h, of None None None "0.35"
        "Some [''Rainy'', ''Sunny'']" "Some ''png''" "Some ''Weather''"]
  have e: "drawn_edges (render_state_diagram True [[0.7, 0.3], [0.4, 0.6]] None None None None (Some 0.35)) =
   drawn_edges (render_state_diagram True [[0.7, 0.3], [0.4, 0.6]] (Some [''Rainy'', ''Sunny''])
                  (Some (default_config\<lparr>state_colors := [''#AA0000'']\<rparr>)) (Some ''png'')
                  (Some ''Weather'') (Some 0.35))"
    and d: "drawn_edges (render_state_diagram True [[0.7, 0.3], [0.4, 0.6]] None None None None (Some 0.35)) =
      Some (selected [[0.7, 0.3], [0.4, 0.6]] 0.35)"
    by blast+
  from d have d': "drawn_edges (render_state_diagram True [[0.7, 0.3], [0.4, 0.6]] None None None None (Some 0.35)) =
      Some [(0, 0), (1, 0), (1, 1)]"
    by (simp only: s)
  from h e d' o show ?thesis by blast
qed

subsection \<open>Node colours\<close>

text \<open>
  Claim C3. For a matrix over \<open>N\<close> states and a palette of length \<open>P\<close>,
  \<^verbatim>\<open>render_state_diagram\<close> gives node \<open>i\<close> the fill colour at position \<open>i mod P\<close> of
  the palette, for every \<open>i < N\<close>. The statement holds for every \<open>P \<ge> 1\<close>, in
  particular for \<open>P < N\<close>, where the palette is cycled; \<open>i mod P\<close> has no meaning for
  an empty palette. There are \<open>N\<close> labels (the default ones, or as many as given).
\<close>

theorem node_color_cycles_palette:
  assumes "square A" "A \<noteq> []" "state_colors config \<noteq> []"
    "length (labels_or_default labels (length A)) = length A"
  shows "\<exists>g. render_state_diagram True A labels (Some config) fmt ttl thr = Inr g \<and>
             length (nodes g) = length A \<and>
             (\<forall>i<length A. node_name (nodes g ! i) = i \<and>
                fillcolor (nodes g ! i) =
                  state_colors config ! (i mod length (state_colors config)))"
proof -
  have c: "config_or_default (Some config) = config"
    by (simp add: config_or_default_def)
  obtain g where g: "render_state_diagram True A labels (Some config) fmt ttl thr = Inr g"
    and n: "nodes g = map (\<lambda>(k, l). mk_node config k l
                (state_colors config ! (k mod length (state_colors config))))
              (zip [0..<length (labels_or_default labels (length A))]
                   (labels_or_default labels (length A)))"
    using render_ok [of A "Some config" labels fmt ttl thr] assms(1-3) unfolding c by blast
  have "length (nodes g) = length A"
    using n assms(4) by simp
  moreover have "\<forall>i<length A. node_name (nodes g ! i) = i \<and>
      fillcolor (nodes g ! i) = state_colors config ! (i mod length (state_colors config))"
    using n assms(4) by (simp add: mk_node_def)
  ultimately show ?thesis using g by blast
qed

theorem node_color_cycles_palette_witness:
  "square eye3 \<and> eye3 \<noteq> [] \<and>
   state_colors (default_config\<lparr>state_colors := [''#AA0000'', ''#00BB00'']\<rparr>) \<noteq> [] \<and>
   length (labels_or_default None (length eye3)) = length eye3 \<and>
   (\<exists>g. render_state_diagram True eye3 None
          (Some (default_config\<lparr>state_colors := [''#AA0000'', ''#00BB00'']\<rparr>)) None None None = Inr g \<and>
        length (nodes g) = 3 \<and>
        fillcolor (nodes g ! 0) = ''#AA0000'' \<and> fillcolor (nodes g ! 1) = ''#00BB00'' \<and>
        fillcolor (nodes g ! 2) = ''#AA0000'')"
proof -
  have h: "square eye3" "eye3 \<noteq> []"
    "state_colors (default_config\<lparr>state_colors := [''#AA0000'', ''#00BB00'']\<rparr>) \<noteq> []"
    "length (labels_or_default None (length eye3)) = length eye3"
    by (simp_all add: square_eye3 eye3_nonempty labels_or_default_def default_labels_def)
  have l: "length eye3 = 3" by (simp add: eye3_def)
  have "Suc (Suc 0) = 2" by simp
  then have m2: "(2 :: nat) mod Suc (Suc 0) = 0" by (simp only: mod_self)
  from node_color_cycles_palette [OF h, of None None None]
  obtain g where g: "render_state_diagram True eye3 None
          (Some (default_config\<lparr>state_colors := [''#AA0000'', ''#00BB00'']\<rparr>)) None None None = Inr g"
    "length (nodes g) = length eye3"
    "\<forall>i<length eye3. node_name (nodes g ! i) = i \<and> fillcolor (nodes g ! i) =
       state_colors (default_config\<lparr>state_colors := [''#AA0000'', ''#00BB00'']\<rparr>) !
         (i mod length (state_colors (default_config\<lparr>state_colors := [''#AA0000'', ''#00BB00'']\<rparr>)))"
    by blast
  have "length (nodes g) = 3" using g(2) by (simp add: l)
  moreover have "fillcolor (nodes g ! 0) = ''#AA0000''" "fillcolor (nodes g ! 1) = ''#00BB00''"
    "fillcolor (nodes g ! 2) = ''#AA0000''"
    using g(3) m2 by (simp_all add: l)
  ultimately show ?thesis using g(1) h by blast
qed

text \<open>
  With an empty palette there is no entry \<open>i mod P\<close>: the node loop raises
  \<^verbatim>\<open>ZeroDivisionError\<close> at the first node.
\<close>

lemma empty_palette_raises:
  assumes "state_colors config = []" "A \<noteq> []"
  shows "render_state_diagram True A None (Some config) fmt ttl thr = Inl ZeroDivisionError"
proof -
  obtain r rs where A: "A = r # rs" using assms(2) by (cases A) auto
  have "default_labels (length A) = (CHR ''S'' # str_nat 0) # map (\<lambda>i. CHR ''S'' # str_nat i) [1..<length A]"
    unfolding A default_labels_def by (simp add: upt_rec del: upt_Suc)
  then show ?thesis
    using assms(1)
    by (simp add: render_state_diagram_def Let_def labels_or_default_def config_or_default_def
        palette_color_def)
qed

subsection \<open>Degenerate matrices\<close>

lemma square_zeros: "square (zeros n)"
  by (simp add: square_def zeros_def list_all_length)

lemma concat_replicate_zeros: "concat (replicate k (replicate n (0 :: real))) = replicate (k * n) 0"
  by (induction k) (simp_all add: replicate_add)

lemma fold_max_zeros: "fold max (replicate k (0 :: real)) 0 = 0"
  by (induction k) simp_all

lemma max_prob_zeros: "max_prob_of (zeros (Suc n)) = Inr 1"
proof -
  have "concat (zeros (Suc n)) = 0 # replicate (n + n * Suc n) 0"
    unfolding zeros_def concat_replicate_zeros by simp
  then have "mat_max (zeros (Suc n)) = Inr 0"
    by (simp only: mat_max_def list.case fold_max_zeros)
  then show ?thesis by (simp add: max_prob_of_def)
qed

lemma edge_width_zero: "m \<noteq> 0 \<Longrightarrow> edge_width m 0 = Fin (1 / 2)"
  by (simp add: edge_width_def np_round_def ddiv_def dmul_def dadd_def drint_def fl_half fl_fifty)

lemma mem_zeros: "i < n \<Longrightarrow> j < n \<Longrightarrow> zeros n ! i ! j = 0"
  by (simp add: zeros_def)

text \<open>
  Claim C4. On numerically degenerate input \<^verbatim>\<open>render_state_diagram\<close> does not raise:
  for the all-zero matrix over \<open>n + 1\<close> states the maximum weight is taken to be
  \<open>1\<close>, the call returns a graph with one node per label, and every edge it draws
  (all of them when the threshold is not positive, none otherwise) has the width
  \<open>0.5\<close>; for a single-state matrix the divisor is the entry if that is positive
  and \<open>1\<close> otherwise, and the call returns a graph. The divisor is positive for
  every matrix with at least one entry (\<open>max_prob_of_ok\<close>).
\<close>

theorem degenerate_matrix_renders:
  assumes "state_colors (config_or_default config) \<noteq> []"
  shows "max_prob_of (zeros (Suc n)) = Inr 1 \<and>
         (\<exists>g. render_state_diagram True (zeros (Suc n)) labels config fmt ttl thr = Inr g \<and>
              length (nodes g) = length (labels_or_default labels (Suc n)) \<and>
              (\<forall>e\<in>set (edges g). penwidth e = Fin (1 / 2))) \<and>
         max_prob_of [[x]] = Inr (if 0 < x then x else 1) \<and>
         (\<exists>g. render_state_diagram True [[x]] labels config fmt ttl thr = Inr g)"
proof (intro conjI)
  show "max_prob_of (zeros (Suc n)) = Inr 1" by (rule max_prob_zeros)
next
  have ne: "zeros (Suc n) \<noteq> []" by (simp add: zeros_def)
  obtain g m where g: "render_state_diagram True (zeros (Suc n)) labels config fmt ttl thr = Inr g"
    and mp: "max_prob_of (zeros (Suc n)) = Inr m"
    and e: "edges g = map (\<lambda>(i, j). mk_edge (config_or_default config) m i j (zeros (Suc n) ! i ! j)
                                      (edge_colour (config_or_default config) i j))
                         (selected (zeros (Suc n)) (threshold_or_default config thr))"
    and nd: "nodes g = map (\<lambda>(k, l). mk_node (config_or_default config) k l
                           (state_colors (config_or_default config) !
                              (k mod length (state_colors (config_or_default config)))))
                         (zip [0..<length (labels_or_default labels (length (zeros (Suc n))))]
                              (labels_or_default labels (length (zeros (Suc n)))))"
    using render_ok [OF square_zeros ne assms, of labels fmt ttl thr] by blast
  have "length (nodes g) = length (labels_or_default labels (Suc n))"
    using nd by (simp add: zeros_def)
  moreover have "\<forall>e\<in>set (edges g). penwidth e = Fin (1 / 2)"
  proof
    fix ed assume "ed \<in> set (edges g)"
    then obtain i j where ij: "(i, j) \<in> set (selected (zeros (Suc n)) (threshold_or_default config thr))"
      and ed: "ed = mk_edge (config_or_default config) m i j (zeros (Suc n) ! i ! j)
                      (edge_colour (config_or_default config) i j)"
      unfolding e by auto
    from ij have "i < Suc n" "j < Suc n"
      by (auto simp: selected_iff zeros_def)
    then have "zeros (Suc n) ! i ! j = 0" by (rule mem_zeros)
    moreover have "m = 1" using mp by (simp add: max_prob_zeros)
    ultimately show "penwidth ed = Fin (1 / 2)"
      using ed by (simp add: mk_edge_def edge_width_zero)
  qed
  ultimately show "\<exists>g. render_state_diagram True (zeros (Suc n)) labels config fmt ttl thr = Inr g \<and>
              length (nodes g) = length (labels_or_default labels (Suc n)) \<and>
              (\<forall>e\<in>set (edges g). penwidth e = Fin (1 / 2))"
    using g by blast
next
  show "max_prob_of [[x]] = Inr (if 0 < x then x else 1)"
    by (simp add: max_prob_of_def mat_max_def)
next
  have sq: "square [[x]]" "[[x]] \<noteq> []" by (simp_all add: square_def)
  show "\<exists>g. render_state_diagram True [[x]] labels config fmt ttl thr = Inr g"
    using render_ok [OF sq assms, of labels fmt ttl thr] by blast
qed

theorem degenerate_matrix_renders_witness:
  "state_colors (config_or_default None) \<noteq> [] \<and>
   max_prob_of (zeros 3) = Inr 1 \<and>
   (\<exists>g. render_state_diagram True (zeros 3) None None None None (Some 0) = Inr g \<and>
        length (nodes g) = 3 \<and> (\<forall>e\<in>set (edges g). penwidth e = Fin (1 / 2))) \<and>
   num_edges (render_state_diagram True (zeros 3) None None None None (Some 0)) = Some 9 \<and>
   max_prob_of [[1]] = Inr 1 \<and>
   (\<exists>g. render_state_diagram True [[1]] None None None None (Some 0) = Inr g)"
proof -
  have h: "state_colors (config_or_default None) \<noteq> []"
    by (simp add: default_cfg default_palette)
  have l: "length (labels_or_default None 3) = 3"
    by (simp add: labels_or_default_def default_labels_def)
  have z: "zeros 3 = [[0, 0, 0], [0, 0, 0], [0, 0, 0]]"
    by (simp add: zeros_def eval_nat_numeral)
  have s: "selected [[0, 0, 0], [0, 0, 0], [0, 0, 0]] 0 = List.product [0, 1, 2] [0, 1, 2]"
    by (simp add: selected_def)
  have n: "num_edges (render_state_diagram True (zeros 3) None None None None (Some 0)) = Some 9"
    using square_zeros [of 3] h unfolding z
    by (simp add: num_edges_drawn drawn_edges_render threshold_or_default_def s)
  show ?thesis
    using degenerate_matrix_renders [OF h, of 2 None None None "Some 0" 1] h n
    by (simp add: l)
qed

text \<open>
  The matrix without any state is outside the statement above: \<^verbatim>\<open>A.max()\<close> has no
  element to take the maximum of and raises \<^verbatim>\<open>ValueError\<close>.
\<close>

lemma empty_matrix_raises:
  "render_state_diagram True [] None config fmt ttl thr = Inl ValueError"
  by (simp add: render_state_diagram_def Let_def labels_or_default_def default_labels_def
      max_prob_of_def mat_max_def)

subsection \<open>Edge widths\<close>



lemma fl_grid:
  assumes "x * 2 ^ 40 \<in> \<int>" "\<bar>x\<bar> < 2 ^ 12"
  shows "fl x = Fin x"
proof -
  obtain k where k: "x * 2 ^ 40 = of_int k" using assms(1) by (auto elim: Ints_cases)
  have "\<bar>of_int k :: real\<bar> = \<bar>x\<bar> * 2 ^ 40" using k by (simp add: abs_mult flip: k)
  also have "\<dots> < 2 ^ 12 * 2 ^ 40" using assms(2) by (intro mult_strict_right_mono) simp_all
  finally have "\<bar>of_int k :: real\<bar> < of_int (2 ^ 53)" by simp
  then have "of_int \<bar>k\<bar> < (of_int (2 ^ 53) :: real)" by simp
  then have b: "\<bar>k\<bar> < 2 ^ 53" by (simp only: of_int_less_iff)
  have x: "x = of_int k / 2 ^ 40" using k by (simp add: field_simps)
  show ?thesis by (subst (1 2) x) (rule fl_dyadic [OF b], simp)
qed








text \<open>
  These properties do not depend on the function that \<^verbatim>\<open>round(..., 2)\<close> dispatches
  to: they hold as well with the built-in rounding of a Python float in the place of
  NumPy's.
\<close>

lemma builtin_round_width_mono:
  assumes "0 < m" "p \<le> q"
  shows "dle (py_round (dadd (Fin 0.5) (dmul (Fin 3.5) (ddiv (Fin p) (Fin m)))) 2)
             (py_round (dadd (Fin 0.5) (dmul (Fin 3.5) (ddiv (Fin q) (Fin m)))) 2)"
proof -
  have "dle (Fin p) (Fin q)" using assms(2) by simp
  then have "dle (ddiv (Fin p) (Fin m)) (ddiv (Fin q) (Fin m))"
    using assms(1) by (rule ddiv_right_mono [rotated])
  then show ?thesis
    by (intro py_round_mono dadd_left_mono dmul_left_mono) simp_all
qed

lemma builtin_round_width_zero:
  "m \<noteq> 0 \<Longrightarrow> py_round (dadd (Fin 0.5) (dmul (Fin 3.5) (ddiv (Fin 0) (Fin m)))) 2 = Fin 0.5"
  by (simp add: py_round_def ddiv_def dmul_def dadd_def fl_half)

lemma builtin_round_width_lower:
  "0 < m \<Longrightarrow> 0 \<le> p \<Longrightarrow>
   dle (Fin 0.5) (py_round (dadd (Fin 0.5) (dmul (Fin 3.5) (ddiv (Fin p) (Fin m)))) 2)"
  using builtin_round_width_mono [of m 0 p] builtin_round_width_zero [of m] by simp

subsection \<open>Construction of the settings object\<close>

text \<open>
  Claim C5, as stated, fails: constructing the settings object with the animation
  speed \<open>-1\<close> and the probability threshold \<open>2\<close> succeeds and stores both values.
\<close>

theorem invalid_settings_are_accepted:
  "DiagramConfig_init (no_kwargs\<lparr>kw_animation_speed := Some (Fin (- 1)), kw_prob_threshold := Some 2\<rparr>) =
   Inr (default_config\<lparr>animation_speed := Fin (- 1), prob_threshold := 2\<rparr>)"
  by (simp add: DiagramConfig_init_def default_config_def no_kwargs_def or_default_def)

text \<open>
  Claim C5, amended. Constructing the settings object performs no validation: for all
  keyword arguments the construction succeeds, the animation speed and the probability
  threshold of the object are the values given (or the defaults \<open>1.0\<close> and \<open>0.01\<close>),
  and no \<open>ConfigurationError\<close> is raised.
\<close>

theorem construction_never_fails:
  "\<exists>c. DiagramConfig_init kw = Inr c \<and>
       animation_speed c = or_default (kw_animation_speed kw) (Fin 1.0) \<and>
       prob_threshold c = or_default (kw_prob_threshold kw) 0.01 \<and>
       DiagramConfig_init kw \<noteq> Inl ConfigurationError"
  by (simp add: DiagramConfig_init_def)

section \<open>Properties of the demo application\<close>

subsection \<open>Row normalisation\<close>

lemma row_divisors_nonzero: "Fin 0 \<notin> set (row_divisors np_sum m)"
  by (auto simp: row_divisors_def Let_def deq_def)

lemma normalise_rows_nth:
  assumes "i < length m"
  shows "normalise_rows np_sum m ! i =
         map (\<lambda>x. ddiv x (if deq (np_sum (m ! i)) (Fin 0) then Fin 1 else np_sum (m ! i))) (m ! i)"
  using assms by (simp add: normalise_rows_def row_divisors_def Let_def)

lemma ddiv_one: "is_double x \<Longrightarrow> ddiv x (Fin 1) = x"
  by (cases x) (simp_all add: is_double_def ddiv_def inf_of_sign_def)

lemma map_ddiv_one: "list_all is_double row \<Longrightarrow> map (\<lambda>x. ddiv x (Fin 1)) row = row"
  by (induction row) (simp_all add: ddiv_one)

text \<open>
  Claim C9, amended. \<^verbatim>\<open>_normalise_rows\<close> never divides by zero: no divisor is zero,
  because a row sum equal to zero is replaced by \<open>1\<close>. The result has the shape of
  the input; a row whose sum is zero is returned unchanged (its entries being
  doubles), and every other row is the input row divided, entry by entry, by its
  sum. Whether such a row then sums to \<open>1\<close> is a matter of rounding: it is not
  claimed.
\<close>

theorem normalise_rows_division_safe:
  "Fin 0 \<notin> set (row_divisors np_sum m) \<and> length (normalise_rows np_sum m) = length m \<and>
   (\<forall>i<length m.
      length (normalise_rows np_sum m ! i) = length (m ! i) \<and>
      (deq (np_sum (m ! i)) (Fin 0) \<longrightarrow> list_all is_double (m ! i) \<longrightarrow>
         normalise_rows np_sum m ! i = m ! i) \<and>
      (\<not> deq (np_sum (m ! i)) (Fin 0) \<longrightarrow>
         normalise_rows np_sum m ! i = map (\<lambda>x. ddiv x (np_sum (m ! i))) (m ! i)))"
proof (intro conjI allI impI)
  show "Fin 0 \<notin> set (row_divisors np_sum m)" by (rule row_divisors_nonzero)
  show "length (normalise_rows np_sum m) = length m"
    by (simp add: normalise_rows_def row_divisors_def)
next
  fix i assume i: "i < length m"
  show "length (normalise_rows np_sum m ! i) = length (m ! i)"
    by (simp add: normalise_rows_nth [OF i])
next
  fix i assume i: "i < length m" and z: "deq (np_sum (m ! i)) (Fin 0)"
    and d: "list_all is_double (m ! i)"
  show "normalise_rows np_sum m ! i = m ! i"
    by (simp add: normalise_rows_nth [OF i] z map_ddiv_one [OF d])
next
  fix i assume i: "i < length m" and nz: "\<not> deq (np_sum (m ! i)) (Fin 0)"
  show "normalise_rows np_sum m ! i = map (\<lambda>x. ddiv x (np_sum (m ! i))) (m ! i)"
    by (simp add: normalise_rows_nth [OF i] nz)
qed

lemma fl_small_ints:
  "fl 1 = Fin 1" "fl 3 = Fin 3" "fl 4 = Fin 4" "fl (- 1) = Fin (- 1)"
  "fl (1 / 4) = Fin (1 / 4)" "fl (3 / 4) = Fin (3 / 4)"
  by (simp_all add: fl_grid)

theorem normalise_rows_division_safe_witness:
  "normalise_rows sum_left_to_right [[Fin 1, Fin 3], [Fin 1, Fin (- 1)]] =
     [[Fin (1 / 4), Fin (3 / 4)], [Fin 1, Fin (- 1)]] \<and>
   \<not> deq (sum_left_to_right ([[Fin 1, Fin 3], [Fin 1, Fin (- 1)]] ! 0)) (Fin 0) \<and>
   normalise_rows sum_left_to_right [[Fin 1, Fin 3], [Fin 1, Fin (- 1)]] ! 0 =
     map (\<lambda>x. ddiv x (sum_left_to_right [Fin 1, Fin 3])) [Fin 1, Fin 3] \<and>
   deq (sum_left_to_right ([[Fin 1, Fin 3], [Fin 1, Fin (- 1)]] ! 1)) (Fin 0) \<and>
   list_all is_double ([[Fin 1, Fin 3], [Fin 1, Fin (- 1)]] ! 1) \<and>
   normalise_rows sum_left_to_right [[Fin 1, Fin 3], [Fin 1, Fin (- 1)]] ! 1 = [Fin 1, Fin (- 1)]"
proof -
  let ?m = "[[Fin 1, Fin 3], [Fin 1, Fin (- 1)]]"
  have s0: "sum_left_to_right [Fin 1, Fin 3] = Fin 4"
    and s1: "sum_left_to_right [Fin 1, Fin (- 1)] = Fin 0"
    by (simp_all add: sum_left_to_right_def dadd_def fl_small_ints)
  have v: "normalise_rows sum_left_to_right ?m = [[Fin (1 / 4), Fin (3 / 4)], [Fin 1, Fin (- 1)]]"
    by (simp add: normalise_rows_def row_divisors_def s0 s1 deq_def ddiv_def fl_small_ints)
  have a: "\<not> deq (sum_left_to_right (?m ! 0)) (Fin 0)"
    and b: "deq (sum_left_to_right (?m ! 1)) (Fin 0)"
    by (simp_all add: s0 s1 deq_def)
  have c: "list_all is_double (?m ! 1)"
    by (simp add: is_double_def fl_small_ints)
  have l: "(0 :: nat) < length ?m" "(1 :: nat) < length ?m" by simp_all
  from normalise_rows_division_safe [of sum_left_to_right ?m] l a b c
  have "normalise_rows sum_left_to_right ?m ! 0 =
          map (\<lambda>x. ddiv x (sum_left_to_right (?m ! 0))) (?m ! 0)"
    and "normalise_rows sum_left_to_right ?m ! 1 = ?m ! 1"
    by blast+
  with v a b c show ?thesis by simp
qed

subsection \<open>Rows that do not sum to one\<close>

lemma fl_one_plus: "fl (1 + 1 / 2 ^ 53 + 1 / 2 ^ 105) = Fin (1 + 1 / 2 ^ 52)"
proof -
  have "round_mant (1 + 1 / 2 ^ 53 + 1 / 2 ^ 105) =
        of_int (rint ((1 + 1 / 2 ^ 53 + 1 / 2 ^ 105) / pow2 (0 - 52))) * pow2 (0 - 52)"
    by (rule round_mant_at) (simp_all add: pow2_def)
  also have "pow2 (0 - 52) = 1 / 2 ^ 52"
    using pow2_neg_nat [of 52] by simp
  also have "rint ((1 + 1 / 2 ^ 53 + 1 / 2 ^ 105) / (1 / 2 ^ 52)) = 2 ^ 52 + 1"
    by (simp add: rint_def Let_def)
  finally have "round_mant (1 + 1 / 2 ^ 53 + 1 / 2 ^ 105) = 1 + 1 / 2 ^ 52"
    by simp
  then show ?thesis by (simp add: fl_def)
qed

lemma fl_recip: "fl (1 / (1 + 1 / 2 ^ 52)) = Fin (1 - 1 / 2 ^ 52)"
proof -
  have "round_mant (1 / (1 + 1 / 2 ^ 52)) =
        of_int (rint ((1 / (1 + 1 / 2 ^ 52)) / pow2 (- 1 - 52))) * pow2 (- 1 - 52)"
    by (rule round_mant_at) (simp_all add: pow2_def powr_minus)
  also have "pow2 (- 1 - 52) = 1 / 2 ^ 53"
    using pow2_neg_nat [of 53] by simp
  also have "rint ((1 / (1 + 1 / 2 ^ 52)) / (1 / 2 ^ 53)) = 2 ^ 53 - 2"
    by (simp add: rint_def Let_def)
  finally have "round_mant (1 / (1 + 1 / 2 ^ 52)) = 1 - 1 / 2 ^ 52"
    by simp
  then show ?thesis by (simp add: fl_def)
qed

lemma fl_overflow: "fl (2 ^ 1023 + 2 ^ 1023) = PInf"
proof -
  have "round_mant (2 ^ 1023 + 2 ^ 1023) =
        of_int (rint ((2 ^ 1023 + 2 ^ 1023) / pow2 (1024 - 52))) * pow2 (1024 - 52)"
    by (rule round_mant_at) (simp_all add: pow2_def)
  also have "pow2 (1024 - 52) = 2 ^ 972"
    using pow2_nat [of 972] by simp
  also have "rint ((2 ^ 1023 + 2 ^ 1023) / 2 ^ 972) = 2 ^ 52"
    by (simp add: rint_def Let_def)
  finally have "round_mant (2 ^ 1023 + 2 ^ 1023) = 2 ^ 1024"
    by simp
  then show ?thesis by (simp add: fl_def)
qed

lemma sum_two: "sum_left_to_right [Fin a, Fin b] = dadd (fl a) (Fin b)"
  by (cases "fl a") (simp_all add: sum_left_to_right_def dadd_def)

text \<open>
  Claim C9, as stated, fails: a row with a positive sum need not be scaled to sum
  exactly \<open>1\<close>. The row \<open>[1, 1/2^53 + 1/2^105]\<close> (both doubles) has the sum
  \<open>1 + 1/2^52\<close> and is normalised to \<open>[1 - 1/2^52, 1/2^53]\<close>, which sums to
  \<open>1 - 1/2^53\<close>, the double just below \<open>1\<close>; the row \<open>[2^1023, 2^1023]\<close> has an
  infinite sum and is normalised to \<open>[0, 0]\<close>. A sum of two entries is the rounded
  sum of both, in whatever order NumPy adds.
\<close>

theorem normalised_row_does_not_sum_to_one:
  "normalise_rows sum_left_to_right [[Fin 1, Fin (1 / 2 ^ 53 + 1 / 2 ^ 105)]] =
     [[Fin (1 - 1 / 2 ^ 52), Fin (1 / 2 ^ 53)]] \<and>
   sum_left_to_right [Fin (1 - 1 / 2 ^ 52), Fin (1 / 2 ^ 53)] = Fin (1 - 1 / 2 ^ 53) \<and>
   normalise_rows sum_left_to_right [[Fin (2 ^ 1023), Fin (2 ^ 1023)]] = [[Fin 0, Fin 0]]"
proof (intro conjI)
  have one: "fl 1 = Fin 1" by (simp add: fl_grid)
  have "sum_left_to_right [Fin 1, Fin (1 / 2 ^ 53 + 1 / 2 ^ 105)] =
        fl (1 + 1 / 2 ^ 53 + 1 / 2 ^ 105)"
    by (simp only: sum_two one dadd_def prod.case double.case add.assoc)
  then have s: "sum_left_to_right [Fin 1, Fin (1 / 2 ^ 53 + 1 / 2 ^ 105)] = Fin (1 + 1 / 2 ^ 52)"
    by (simp only: fl_one_plus)
  have q: "(1 / 2 ^ 53 + 1 / 2 ^ 105) / (1 + 1 / 2 ^ 52) = (1 / 2 ^ 53 :: real)"
    by simp
  have q2: "fl (1 / 2 ^ 53) = Fin (1 / 2 ^ 53)"
    using fl_dyadic [of 1 53] by simp
  have nz: "(1 + 1 / 2 ^ 52 :: real) \<noteq> 0" by simp
  have d: "row_divisors sum_left_to_right [[Fin 1, Fin (1 / 2 ^ 53 + 1 / 2 ^ 105)]] =
           [Fin (1 + 1 / 2 ^ 52)]"
    using nz by (simp add: row_divisors_def s deq_def Let_def del: power_numeral)
  have e1: "ddiv (Fin 1) (Fin (1 + 1 / 2 ^ 52)) = Fin (1 - 1 / 2 ^ 52)"
    using nz by (simp only: ddiv_def prod.case double.case if_False fl_recip)
  have e2: "ddiv (Fin (1 / 2 ^ 53 + 1 / 2 ^ 105)) (Fin (1 + 1 / 2 ^ 52)) = Fin (1 / 2 ^ 53)"
    using nz by (simp only: ddiv_def prod.case double.case if_False q q2)
  show "normalise_rows sum_left_to_right [[Fin 1, Fin (1 / 2 ^ 53 + 1 / 2 ^ 105)]] =
     [[Fin (1 - 1 / 2 ^ 52), Fin (1 / 2 ^ 53)]]"
    unfolding normalise_rows_def d
    by (simp only: zip.simps list.case list.map prod.case e1 e2 zip_Cons_Cons zip_Nil)
next
  have a: "fl (1 - 1 / 2 ^ 52) = Fin (1 - 1 / 2 ^ 52)"
    using fl_dyadic [of "2 ^ 52 - 1" 52] by simp
  have b: "fl (1 - 1 / 2 ^ 52 + 1 / 2 ^ 53) = Fin (1 - 1 / 2 ^ 53)"
    using fl_dyadic [of "2 ^ 53 - 1" 53] by simp
  show "sum_left_to_right [Fin (1 - 1 / 2 ^ 52), Fin (1 / 2 ^ 53)] = Fin (1 - 1 / 2 ^ 53)"
    by (simp only: sum_two a dadd_def prod.case double.case b)
next
  have p: "pow2 1023 = 2 ^ 1023" using pow2_nat [of 1023] by simp
  have a: "fl (2 ^ 1023) = Fin (2 ^ 1023)"
    by (rule fl_exact [of _ 1 1023]) (simp_all add: p)
  have s: "sum_left_to_right [Fin (2 ^ 1023), Fin (2 ^ 1023)] = PInf"
    by (simp only: sum_two a dadd_def prod.case double.case fl_overflow)
  show "normalise_rows sum_left_to_right [[Fin (2 ^ 1023), Fin (2 ^ 1023)]] = [[Fin 0, Fin 0]]"
    unfolding normalise_rows_def row_divisors_def
    by (simp add: s deq_def ddiv_def Let_def del: power_numeral)
qed

subsection \<open>The training simulator\<close>

lemma iteration_training_step:
  "iteration (snd (training_step ops At Bt pit i st)) = i"
  by (simp add: training_step_def Let_def split: prod.splits)

lemma training_loop_iterations:
  "map iteration (training_loop ops At Bt pit is st acc) = map iteration acc @ is"
proof (induction "is" arbitrary: st acc)
  case Nil
  then show ?case by simp
next
  case (Cons i "is")
  obtain st' snap where s: "training_step ops At Bt pit i st = (st', snap)"
    by (cases "training_step ops At Bt pit i st")
  then have "iteration snap = i"
    using iteration_training_step [of ops At Bt pit i st] by simp
  with s Cons.IH [of st' "acc @ [snap]"] show ?case by simp
qed

text \<open>
  Claim C8. Whatever the random generator draws, the snapshots produced by
  \<^verbatim>\<open>_simulate_training\<close> carry the iteration indices \<open>1, 2, ..., n_iterations\<close> in
  this order: there are \<open>n_iterations\<close> of them, strictly increasing, pairwise
  different, each at least \<open>1\<close>.
\<close>

theorem simulated_iterations_are_one_to_n:
  "map iteration (simulate_training ops n_states n_obs n_iterations seed) = [1..n_iterations] \<and>
   length (simulate_training ops n_states n_obs n_iterations seed) = nat n_iterations \<and>
   sorted_wrt (<) (map iteration (simulate_training ops n_states n_obs n_iterations seed)) \<and>
   distinct (map iteration (simulate_training ops n_states n_obs n_iterations seed)) \<and>
   list_all (\<lambda>k. 1 \<le> k) (map iteration (simulate_training ops n_states n_obs n_iterations seed))"
proof -
  have m: "map iteration (simulate_training ops n_states n_obs n_iterations seed) =
           [1..n_iterations]"
    by (simp add: simulate_training_def Let_def training_loop_iterations split: prod.splits)
  have "length (map iteration (simulate_training ops n_states n_obs n_iterations seed)) =
        nat n_iterations"
    unfolding m by simp
  then have l: "length (simulate_training ops n_states n_obs n_iterations seed) = nat n_iterations"
    by simp
  have "list_all (\<lambda>k. 1 \<le> k) [1..n_iterations]"
    by (simp add: list_all_iff)
  with m l show ?thesis by simp
qed

section \<open>Properties of the settings object\<close>

subsection \<open>Serialisation and parsing\<close>










end
